theory Spec2Isabelle
  imports Complex_Main "HOL-Library.Log_Nat"
begin

section \<open>Data model\<close>

text \<open>
  JavaScript values are embedded as follows. A \<open>Date\<close> is the integer it wraps
  (milliseconds since the epoch, what \<open>getTime()\<close> returns). A number is a
  rational; a value that may be \<open>null\<close> is an option. Times and tick counts are whole
  numbers, on which the arithmetic of doubles is exact; the delay to recover and the
  playback rate of SpeedToSync are computed with the rounding of IEEE doubles
  (\<open>roundDouble\<close> below). An exception that nothing
  catches ends the running closure: it is recorded in \<open>uncaught\<close>, and the
  statements after the call that threw are skipped.
\<close>

datatype CommandKind = Unpause | Pause | Stop | Seek | Unrecognised

text \<open>
  A playback command as \<open>processCommand\<close> receives it. \<open>WhenIsString\<close> is the test
  \<open>typeof cmd.When === 'string'\<close>: it holds for a command fresh from the wire and not
  for one that was parsed before (the queued command).
\<close>

record PlaybackCommand =
  When :: int
  EmittedAt :: int
  PositionTicks :: "int option"
  Command :: CommandKind
  PlaylistItemId :: string
  WhenIsString :: bool

text \<open>What the core asks of a player handed to \<open>bindToPlayer\<close>: whether the factory
  knows a wrapper for it, whether it supports \<open>PlaybackRate\<close>, and its current rate.\<close>

record Player =
  wrapperKnown :: bool
  supportsPlaybackRate :: bool
  getPlaybackRate :: rat

text \<open>The group as \<open>enableSyncPlay\<close> receives it. \<open>AccessList\<close> maps the id of a user
  to the user's rights; a group without the list has the empty one here.\<close>

record Access =
  PlaybackAccess :: bool
  PlaylistAccess :: bool

record GroupInfo =
  GroupId :: string
  LastUpdatedAt :: int
  AccessList :: "(string \<times> Access) list"

datatype SyncMethod = NoSync | SpeedToSync "rat option" | SkipToSync nat

text \<open>The fields of the \<open>SyncPlayManager\<close> singleton (syncPlayManager.js, constructor),
  with the flag \<open>playbackManager.syncPlayEnabled\<close> of that module and whether a player
  wrapper is set.\<close>

record SyncPlayManager =
  syncMethod :: SyncMethod
  groupInfo :: "GroupInfo option"
  syncPlayEnabledAt :: "int option"
  syncPlayReady :: bool
  queuedCommand :: "PlaybackCommand option"
  followingGroupPlayback :: bool
  lastPlaybackCommand :: "PlaybackCommand option"
  hasPlayerWrapper :: bool
  pmSyncPlayEnabled :: bool

text \<open>The fields of \<open>SyncPlayPlaybackCore\<close> (constructor and \<open>loadPreferences\<close>).
  A timeout field holds the handle \<open>setTimeout\<close> returned, or \<open>None\<close> for
  \<open>null\<close>/\<open>undefined\<close>.\<close>

record SyncPlayPlaybackCore =
  playbackRateSupported :: bool
  syncEnabled :: bool
  playbackDiffMillis :: rat
  syncAttempts :: nat
  lastSyncTime :: int
  enableSyncCorrection :: bool
  lastPlaybackWaiting :: "int option"
  minBufferingThresholdMillis :: int
  hasCurrentPlayer :: bool
  localPlayerPlaybackRate :: rat
  lastCommand :: "PlaybackCommand option"
  scheduledCommandTimeout :: "nat option"
  syncTimeout :: "nat option"
  notifyBuffering :: "nat option"
  minDelaySpeedToSync :: rat
  maxDelaySpeedToSync :: rat
  speedToSyncDuration :: rat
  minDelaySkipToSync :: rat
  useSpeedToSync :: bool
  useSkipToSync :: bool

text \<open>The bodies of the closures the core hands to \<open>setTimeout\<close> and to
  \<open>waitForEventOnce(...).then\<close>, one constructor per closure of the source, with the
  values it captures.\<close>

datatype Callback =
    CbUnpause rat
  | CbEnableSync
  | CbNotifyOsdUnpause
  | CbPause "rat option"
  | CbStop
  | CbSeek "rat option"
  | CbLocalSeek "rat option"
  | CbPauseAndReady
  | CbSeekTimedOut "rat option"
  | CbSpeedToSyncEnd
  | CbSkipToSyncEnd
  | CbSendBuffering
  | CbSyncPlayReady

datatype EventName =
    TimeSyncServerUpdate | EvUnpause | EvPause | EvPlaying

text \<open>A pending \<open>waitForEventOnce\<close>: the event, the timeout in milliseconds if one was
  given, the continuation of \<open>then\<close> and the one of \<open>catch\<close>.\<close>

record Waiter =
  wEvent :: EventName
  wTimeout :: "int option"
  wThen :: Callback
  wCatch :: "Callback option"

text \<open>What leaves the core: calls on the current player (\<open>currentPlayer\<close>), requests
  to the server, events triggered on the manager, and calls on the player wrapper and
  the time sync core.\<close>

datatype Call =
    SetPlaybackRate "rat option"
  | RequestSyncPlayUnpause
  | RequestSyncPlayPause
  | RequestSyncPlaySeek "rat option"
  | RequestSyncPlayBuffering int rat bool "string option" bool
  | Trigger string
  | WrapperBindToPlayer
  | WrapperUnbindFromPlayer
  | TimeSyncForceUpdate
  | WebRTCEnable
  | WebRTCDisable

text \<open>The \<open>playbackManager\<close> of the playback core module is a stand-in object that is
  created with \<open>currentTime\<close> and \<open>getPlayerState\<close> only. Each of the methods the core
  swaps is either missing or the core's own \<open>*Request\<close> override;
  \<open>pm_localUnpause\<close> is \<open>playbackManager._localUnpause\<close>, and so on. Nothing ever
  gives the object a \<open>stop\<close> method or sets its \<open>syncPlayEnabled\<close> (the manager sets
  that flag on the object of its own module).\<close>

datatype Method = Undefined | RequestOverride

record PlaybackManager =
  pm_playPause :: Method
  pm_unpause :: Method
  pm_pause :: Method
  pm_seek :: Method
  pm_sendCommand :: Method
  pm_localPlayPause :: Method
  pm_localUnpause :: Method
  pm_localPause :: Method
  pm_localSeek :: Method
  pm_localSendCommand :: Method

datatype LogLevel = Debug | Log | Warn | Error

text \<open>The whole client: the two singletons, the stand-in \<open>playbackManager\<close> of the
  playback core, the pending timers of the event loop (handle, delay in milliseconds,
  closure), the pending event waiters, the trace of calls, the console lines of
  \<open>processCommand\<close> and \<open>applyCommand\<close> and of the two sync methods, and the
  exceptions that nothing caught.\<close>

record SyncPlay =
  manager :: SyncPlayManager
  playbackCore :: SyncPlayPlaybackCore
  playbackManager :: PlaybackManager
  timers :: "(nat \<times> rat \<times> Callback) list"
  nextTimer :: nat
  waiters :: "Waiter list"
  calls :: "Call list"
  console :: "(LogLevel \<times> string) list"
  uncaught :: "string list"

text \<open>How the player wrapper in charge answers the \<open>*Request\<close> calls of the overrides:
  it has no such methods (the \<open>SyncPlayLocalPlayer\<close> of players/localPlayer.js and the
  wrappers on core/players/genericPlayer), it sends the request to the server
  (\<open>SyncPlayGenericPlayer\<close> of players/genericPlayer, \<open>SyncPlayHtmlVideoPlayer\<close> and
  the \<open>SyncPlayLocalPlayer\<close> that has the methods), or it hands the call back to the
  playback core's \<open>local*\<close> method (\<open>SyncPlayRemotePlayer\<close> and its Chromecast
  subclass).\<close>

datatype WrapperRequests = NoRequestMethods | SendsRequests | CallsLocal

text \<open>What a function reads from outside the two singletons at the moment it runs: the
  clock, the time sync offset, the player wrapper's answers, \<open>playbackManager\<close>'s player
  state (the stand-in of the playback core module answers position 0 and paused), the
  queue's current item, \<open>Math.random()\<close>, the WebRTC setting, the current user's id in
  the form \<open>stringToGuid\<close> gives it, and the number of nested calls the stack takes.\<close>

record Env =
  now :: int
  timeOffset :: int
  playbackActive :: bool
  remote :: bool
  wrapperRequests :: WrapperRequests
  pmCurrentTime :: rat
  pmIsPaused :: bool
  currentPlaylistItemId :: "string option"
  random :: rat
  enableWebRTC :: bool
  currentUserId :: string
  stackDepth :: nat

section \<open>Helpers\<close>

definition TicksPerMillisecond :: rat where
  "TicksPerMillisecond = 10000"

definition WaitForEventDefaultTimeout :: int where
  "WaitForEventDefaultTimeout = 30000"

definition WaitForPlayerEventTimeout :: int where
  "WaitForPlayerEventTimeout = 500"

text \<open>\<open>null\<close> in arithmetic is 0.\<close>

definition toNumber :: "rat option \<Rightarrow> rat" where
  "toNumber v = (case v of None \<Rightarrow> 0 | Some q \<Rightarrow> q)"

definition ticksOf :: "int option \<Rightarrow> rat option" where
  "ticksOf v = map_option of_int v"

text \<open>\<open>Math.round\<close>: to the nearest integer, halves upwards.\<close>

definition mathRound :: "rat \<Rightarrow> rat" where
  "mathRound q = of_int \<lfloor>q + 1 / 2\<rfloor>"

text \<open>Modelled from the spec: the time sync core (timeSync/core) is not among the sources.
  The spec gives \<open>offset()\<close> as the estimate of remote minus local and says the two
  conversions apply the offset.\<close>

text \<open>The IEEE double nearest to a rational, ties to the even significand: 53
  significant bits at the exponent of the argument. The range of the exponent is taken to
  be unbounded: no overflow to \<open>Infinity\<close> and no subnormal numbers, which the delays and
  rates computed here are far from.\<close>

definition exponentOf :: "rat \<Rightarrow> int" where
  "exponentOf x =
     (let (p, q) = quotient_of \<bar>x\<bar>; k = bitlen p - bitlen q
      in if power_int 2 k \<le> \<bar>x\<bar> then k else k - 1)"

definition roundHalfEven :: "rat \<Rightarrow> int" where
  "roundHalfEven m =
     (let f = \<lfloor>m\<rfloor>; r = m - of_int f
      in if r < 1 / 2 then f else if 1 / 2 < r then f + 1 else if even f then f else f + 1)"

definition roundDouble :: "rat \<Rightarrow> rat" where
  "roundDouble x =
     (if x = 0 then 0
      else (let u = power_int 2 (exponentOf x - 52) in of_int (roundHalfEven (x / u)) * u))"

definition localDateToRemote :: "Env \<Rightarrow> int \<Rightarrow> int" where
  "localDateToRemote env t = t + timeOffset env"

definition remoteDateToLocal :: "Env \<Rightarrow> int \<Rightarrow> int" where
  "remoteDateToLocal env t = t - timeOffset env"

definition logLine :: "LogLevel \<Rightarrow> string \<Rightarrow> SyncPlay \<Rightarrow> SyncPlay" where
  "logLine lvl msg s = s\<lparr>console := console s @ [(lvl, msg)]\<rparr>"

definition call :: "Call \<Rightarrow> SyncPlay \<Rightarrow> SyncPlay" where
  "call c s = s\<lparr>calls := calls s @ [c]\<rparr>"

text \<open>An exception is thrown and nothing in the core catches it. \<open>threw s s'\<close> tells
  whether the call that took \<open>s\<close> to \<open>s'\<close> ended that way, in which case the caller's
  remaining statements do not run.\<close>

definition TypeError :: string where
  "TypeError = ''TypeError: not a function''"

definition RangeError :: string where
  "RangeError = ''RangeError: Maximum call stack size exceeded''"

definition throw :: "string \<Rightarrow> SyncPlay \<Rightarrow> SyncPlay" where
  "throw e s = s\<lparr>uncaught := uncaught s @ [e]\<rparr>"

definition threw :: "SyncPlay \<Rightarrow> SyncPlay \<Rightarrow> bool" where
  "threw s s' = (uncaught s' \<noteq> uncaught s)"

text \<open>\<open>setTimeout\<close> queues the closure under a fresh handle and returns the handle;
  \<open>clearTimeout\<close> removes the timer of that handle, if it is still pending, and does
  nothing for \<open>null\<close>. Neither touches the field that holds the handle.\<close>

definition setTimeout :: "Callback \<Rightarrow> rat \<Rightarrow> SyncPlay \<Rightarrow> nat \<times> SyncPlay" where
  "setTimeout cb delay s =
     (nextTimer s, s\<lparr>timers := timers s @ [(nextTimer s, delay, cb)], nextTimer := Suc (nextTimer s)\<rparr>)"

definition clearTimeout :: "nat option \<Rightarrow> SyncPlay \<Rightarrow> SyncPlay" where
  "clearTimeout h s =
     (case h of None \<Rightarrow> s
      | Some i \<Rightarrow> s\<lparr>timers := filter (\<lambda>t. fst t \<noteq> i) (timers s)\<rparr>)"

definition waitForEventOnce :: "EventName \<Rightarrow> int option \<Rightarrow> Callback \<Rightarrow> Callback option \<Rightarrow> SyncPlay \<Rightarrow> SyncPlay" where
  "waitForEventOnce ev t k e s =
     s\<lparr>waiters := waiters s @ [\<lparr>wEvent = ev, wTimeout = t, wThen = k, wCatch = e\<rparr>]\<rparr>"

section \<open>SyncPlayManager: status and icon\<close>

definition isSyncPlayEnabled :: "SyncPlay \<Rightarrow> bool" where
  "isSyncPlayEnabled s = (syncPlayEnabledAt (manager s) \<noteq> None)"

definition showSyncIcon :: "SyncMethod \<Rightarrow> SyncPlay \<Rightarrow> SyncPlay" where
  "showSyncIcon m s = call (Trigger ''syncing'') (s\<lparr>manager := (manager s)\<lparr>syncMethod := m\<rparr>\<rparr>)"

definition clearSyncIcon :: "SyncPlay \<Rightarrow> SyncPlay" where
  "clearSyncIcon s = call (Trigger ''syncing'') (s\<lparr>manager := (manager s)\<lparr>syncMethod := NoSync\<rparr>\<rparr>)"

definition hasUserPlaybackAccess :: "string \<Rightarrow> SyncPlay \<Rightarrow> bool" where
  "hasUserPlaybackAccess userId s =
     (case groupInfo (manager s) of
        None \<Rightarrow> False
      | Some info \<Rightarrow>
          (case map_of (AccessList info) userId of
             None \<Rightarrow> False
           | Some a \<Rightarrow> PlaybackAccess a))"

definition hasPlaybackAccess :: "Env \<Rightarrow> SyncPlay \<Rightarrow> bool" where
  "hasPlaybackAccess env s = hasUserPlaybackAccess (currentUserId env) s"

section \<open>SyncPlayPlaybackCore\<close>

text \<open>The overrides \<open>unpauseRequest\<close>, \<open>pauseRequest\<close> and \<open>seekRequest\<close> that
  \<open>injectPlaybackManager\<close> installs: nothing without playback access, otherwise the
  same method of the player wrapper. A wrapper without the method makes the call a
  \<open>TypeError\<close>. A wrapper that hands the call back to \<open>local*\<close> arrives at the override
  again, with the same answers, until the stack overflows. The wrapper that sends the
  pause request also pauses through \<open>localPause\<close>, so it too comes back, sending the
  request once per round.\<close>

definition unpauseRequest :: "Env \<Rightarrow> SyncPlay \<Rightarrow> SyncPlay" where
  "unpauseRequest env s =
     (if \<not> hasPlaybackAccess env s then s
      else case wrapperRequests env of
             NoRequestMethods \<Rightarrow> throw TypeError s
           | SendsRequests \<Rightarrow> call RequestSyncPlayUnpause s
           | CallsLocal \<Rightarrow> throw RangeError s)"

definition pauseRequest :: "Env \<Rightarrow> SyncPlay \<Rightarrow> SyncPlay" where
  "pauseRequest env s =
     (if \<not> hasPlaybackAccess env s then s
      else case wrapperRequests env of
             NoRequestMethods \<Rightarrow> throw TypeError s
           | SendsRequests \<Rightarrow>
               throw RangeError
                 (s\<lparr>calls := calls s @ replicate (stackDepth env) RequestSyncPlayPause\<rparr>)
           | CallsLocal \<Rightarrow> throw RangeError s)"

definition seekRequest :: "Env \<Rightarrow> rat option \<Rightarrow> SyncPlay \<Rightarrow> SyncPlay" where
  "seekRequest env positionTicks s =
     (if \<not> hasPlaybackAccess env s then s
      else case wrapperRequests env of
             NoRequestMethods \<Rightarrow> throw TypeError s
           | SendsRequests \<Rightarrow> call (RequestSyncPlaySeek positionTicks) s
           | CallsLocal \<Rightarrow> throw RangeError s)"

text \<open>The \<open>local*\<close> methods: ignored when no player is active. Otherwise they call
  the stand-in's saved \<open>_local*\<close> method if its \<open>syncPlayEnabled\<close> is set, which it
  never is, and the method itself if not: a \<open>TypeError\<close> where the method is missing,
  the override where it is installed. \<open>localStop\<close> calls \<open>playbackManager.stop\<close>,
  which is always missing.\<close>

definition standInSyncPlayEnabled :: bool where
  "standInSyncPlayEnabled = False"

definition callMethod :: "Method \<Rightarrow> (SyncPlay \<Rightarrow> SyncPlay) \<Rightarrow> SyncPlay \<Rightarrow> SyncPlay" where
  "callMethod m override s =
     (case m of Undefined \<Rightarrow> throw TypeError s | RequestOverride \<Rightarrow> override s)"

definition localUnpause :: "Env \<Rightarrow> SyncPlay \<Rightarrow> SyncPlay" where
  "localUnpause env s =
     (if \<not> playbackActive env then s
      else if standInSyncPlayEnabled
      then callMethod (pm_localUnpause (playbackManager s)) (unpauseRequest env) s
      else callMethod (pm_unpause (playbackManager s)) (unpauseRequest env) s)"

definition localPause :: "Env \<Rightarrow> SyncPlay \<Rightarrow> SyncPlay" where
  "localPause env s =
     (if \<not> playbackActive env then s
      else if standInSyncPlayEnabled
      then callMethod (pm_localPause (playbackManager s)) (pauseRequest env) s
      else callMethod (pm_pause (playbackManager s)) (pauseRequest env) s)"

definition localSeek :: "Env \<Rightarrow> rat option \<Rightarrow> SyncPlay \<Rightarrow> SyncPlay" where
  "localSeek env positionTicks s =
     (if \<not> playbackActive env then s
      else if standInSyncPlayEnabled
      then callMethod (pm_localSeek (playbackManager s)) (seekRequest env positionTicks) s
      else callMethod (pm_seek (playbackManager s)) (seekRequest env positionTicks) s)"

definition localStop :: "Env \<Rightarrow> SyncPlay \<Rightarrow> SyncPlay" where
  "localStop env s =
     (if \<not> playbackActive env then s else callMethod Undefined (\<lambda>t. t) s)"

definition sendBufferingRequest :: "Env \<Rightarrow> bool \<Rightarrow> SyncPlay \<Rightarrow> SyncPlay" where
  "sendBufferingRequest env isBuffering s =
     call (RequestSyncPlayBuffering
             (localDateToRemote env (now env))
             (mathRound (pmCurrentTime env) * TicksPerMillisecond)
             (\<not> pmIsPaused env)
             (currentPlaylistItemId env)
             (\<not> isBuffering)) s"

definition isBuffering :: "Env \<Rightarrow> SyncPlay \<Rightarrow> bool" where
  "isBuffering env s =
     (case lastPlaybackWaiting (playbackCore s) of
        None \<Rightarrow> False
      | Some w \<Rightarrow> now env - w > minBufferingThresholdMillis (playbackCore s))"

definition estimateCurrentTicks :: "Env \<Rightarrow> rat option \<Rightarrow> int \<Rightarrow> rat" where
  "estimateCurrentTicks env ticks when =
     toNumber ticks + of_int (localDateToRemote env (now env) - when) * TicksPerMillisecond"

definition clearScheduledCommand :: "SyncPlay \<Rightarrow> SyncPlay" where
  "clearScheduledCommand s =
     (let s1 = clearTimeout (scheduledCommandTimeout (playbackCore s)) s;
          s2 = clearTimeout (syncTimeout (playbackCore s1)) s1;
          s3 = s2\<lparr>playbackCore := (playbackCore s2)\<lparr>syncEnabled := False\<rparr>\<rparr>;
          s4 = (if hasCurrentPlayer (playbackCore s3) \<and> playbackRateSupported (playbackCore s3)
                then call (SetPlaybackRate (Some 1)) s3 else s3)
      in clearSyncIcon s4)"

text \<open>The closures of \<open>schedulePause\<close>, \<open>scheduleStop\<close> and \<open>scheduleSeek\<close>, which
  run at once when the time has passed and from the timer otherwise.\<close>

definition pauseCallback :: "Env \<Rightarrow> rat option \<Rightarrow> SyncPlay \<Rightarrow> SyncPlay" where
  "pauseCallback env positionTicks s =
     localPause env
       (waitForEventOnce EvPause (Some WaitForPlayerEventTimeout)
          (CbLocalSeek positionTicks) (Some (CbLocalSeek positionTicks)) s)"

definition stopCallback :: "Env \<Rightarrow> SyncPlay \<Rightarrow> SyncPlay" where
  "stopCallback env s = localStop env s"

definition seekCallback :: "Env \<Rightarrow> rat option \<Rightarrow> SyncPlay \<Rightarrow> SyncPlay" where
  "seekCallback env positionTicks s =
     (let s1 = localUnpause env s
      in if threw s s1 then s1
         else (let s2 = localSeek env positionTicks s1
               in if threw s1 s2 then s2
                  else waitForEventOnce EvPlaying (Some WaitForEventDefaultTimeout)
                         CbPauseAndReady (Some (CbSeekTimedOut positionTicks)) s2))"

definition scheduleUnpause :: "Env \<Rightarrow> int \<Rightarrow> rat option \<Rightarrow> SyncPlay \<Rightarrow> SyncPlay" where
  "scheduleUnpause env playAtTime positionTicks s =
     (let s1 = clearScheduledCommand s;
          enableSyncTimeout = maxDelaySpeedToSync (playbackCore s1) / 2;
          currentTime = now env;
          playAtTimeLocal = remoteDateToLocal env playAtTime;
          currentPositionTicks = pmCurrentTime env * TicksPerMillisecond
      in if playAtTimeLocal > currentTime then
           (let playTimeout = of_int (playAtTimeLocal - currentTime);
                s2 = (if currentPositionTicks - toNumber positionTicks
                          > minDelaySkipToSync (playbackCore s1) * TicksPerMillisecond
                      then localSeek env positionTicks s1 else s1)
            in if threw s1 s2 then s2
               else (let (h, s3) = setTimeout (CbUnpause enableSyncTimeout) playTimeout s2
                     in s3\<lparr>playbackCore := (playbackCore s3)\<lparr>scheduledCommandTimeout := Some h\<rparr>\<rparr>))
         else
           (let serverPositionTicks = estimateCurrentTicks env positionTicks playAtTime;
                s2 = waitForEventOnce EvUnpause None (CbLocalSeek (Some serverPositionTicks)) None s1;
                s3 = localUnpause env s2
            in if threw s2 s3 then s3
               else (let (h0, s4) = setTimeout CbNotifyOsdUnpause 100 s3;
                         (h, s5) = setTimeout CbEnableSync enableSyncTimeout s4
                     in s5\<lparr>playbackCore := (playbackCore s5)\<lparr>syncTimeout := Some h\<rparr>\<rparr>)))"

definition schedulePause :: "Env \<Rightarrow> int \<Rightarrow> rat option \<Rightarrow> SyncPlay \<Rightarrow> SyncPlay" where
  "schedulePause env pauseAtTime positionTicks s =
     (let s1 = clearScheduledCommand s;
          currentTime = now env;
          pauseAtTimeLocal = remoteDateToLocal env pauseAtTime
      in if pauseAtTimeLocal > currentTime then
           (let pauseTimeout = of_int (pauseAtTimeLocal - currentTime);
                (h, s2) = setTimeout (CbPause positionTicks) pauseTimeout s1
            in s2\<lparr>playbackCore := (playbackCore s2)\<lparr>scheduledCommandTimeout := Some h\<rparr>\<rparr>)
         else pauseCallback env positionTicks s1)"

definition scheduleStop :: "Env \<Rightarrow> int \<Rightarrow> SyncPlay \<Rightarrow> SyncPlay" where
  "scheduleStop env stopAtTime s =
     (let s1 = clearScheduledCommand s;
          currentTime = now env;
          stopAtTimeLocal = remoteDateToLocal env stopAtTime
      in if stopAtTimeLocal > currentTime then
           (let stopTimeout = of_int (stopAtTimeLocal - currentTime);
                (h, s2) = setTimeout CbStop stopTimeout s1
            in s2\<lparr>playbackCore := (playbackCore s2)\<lparr>scheduledCommandTimeout := Some h\<rparr>\<rparr>)
         else stopCallback env s1)"

definition scheduleSeek :: "Env \<Rightarrow> int \<Rightarrow> rat option \<Rightarrow> SyncPlay \<Rightarrow> SyncPlay" where
  "scheduleSeek env seekAtTime positionTicks s =
     (let s1 = clearScheduledCommand s;
          currentTime = now env;
          seekAtTimeLocal = remoteDateToLocal env seekAtTime
      in if seekAtTimeLocal > currentTime then
           (let seekTimeout = of_int (seekAtTimeLocal - currentTime);
                (h, s2) = setTimeout (CbSeek positionTicks) seekTimeout s1
            in s2\<lparr>playbackCore := (playbackCore s2)\<lparr>scheduledCommandTimeout := Some h\<rparr>\<rparr>)
         else seekCallback env positionTicks s1)"

text \<open>The duplicate test at the head of \<open>applyCommand\<close>.\<close>

definition isDuplicate :: "SyncPlay \<Rightarrow> PlaybackCommand \<Rightarrow> bool" where
  "isDuplicate s command =
     (case lastCommand (playbackCore s) of
        None \<Rightarrow> False
      | Some l \<Rightarrow> When l = When command \<and> PositionTicks l = PositionTicks command
                  \<and> Command l = Command command \<and> PlaylistItemId l = PlaylistItemId command)"

definition applyCommand :: "Env \<Rightarrow> PlaybackCommand \<Rightarrow> SyncPlay \<Rightarrow> SyncPlay" where
  "applyCommand env command s =
     (if isDuplicate s command then
        (let s1 = logLine Debug ''SyncPlay applyCommand: duplicate command received!'' s;
             currentTime = now env;
             whenLocal = remoteDateToLocal env (When command)
         in if whenLocal > currentTime then
              logLine Debug ''SyncPlay applyCommand: command already scheduled.'' s1
            else
              (let currentPositionTicks = pmCurrentTime env * TicksPerMillisecond;
                   isPlaying = (\<not> pmIsPaused env);
                   positionDiffers = (Some currentPositionTicks \<noteq> ticksOf (PositionTicks command))
               in case Command command of
                    Unpause \<Rightarrow>
                      (if \<not> isPlaying
                       then scheduleUnpause env (When command) (ticksOf (PositionTicks command)) s1
                       else s1)
                  | Pause \<Rightarrow>
                      (if isPlaying \<or> positionDiffers
                       then schedulePause env (When command) (ticksOf (PositionTicks command)) s1
                       else s1)
                  | Stop \<Rightarrow>
                      (if isPlaying then scheduleStop env (When command) s1 else s1)
                  | Seek \<Rightarrow>
                      (if isPlaying \<or> positionDiffers then
                         (let rangeWidth = 100;
                              randomOffsetTicks =
                                mathRound ((random env - 1 / 2) * rangeWidth) * TicksPerMillisecond;
                              s2 = scheduleSeek env (When command)
                                     (Some (toNumber (ticksOf (PositionTicks command)) + randomOffsetTicks)) s1
                          in if threw s1 s2 then s2
                             else logLine Debug
                                    ''SyncPlay applyCommand: adding random offset to force seek:'' s2)
                       else sendBufferingRequest env False s1)
                  | Unrecognised \<Rightarrow>
                      logLine Error ''SyncPlay applyCommand: command is not recognised:'' s1))
      else
        (let s1 = s\<lparr>playbackCore := (playbackCore s)\<lparr>lastCommand := Some command\<rparr>\<rparr>
         in if remote env then s1
            else case Command command of
                   Unpause \<Rightarrow> scheduleUnpause env (When command) (ticksOf (PositionTicks command)) s1
                 | Pause \<Rightarrow> schedulePause env (When command) (ticksOf (PositionTicks command)) s1
                 | Stop \<Rightarrow> scheduleStop env (When command) s1
                 | Seek \<Rightarrow> scheduleSeek env (When command) (ticksOf (PositionTicks command)) s1
                 | Unrecognised \<Rightarrow>
                     logLine Error ''SyncPlay applyCommand: command is not recognised:'' s1))"

section \<open>SyncPlayManager: command routing\<close>

text \<open>The conversion at the head of \<open>processCommand\<close>, done in place on a command whose
  \<open>When\<close> is still a string. The dates are integers here already; \<open>PositionTicks\<close>
  becomes \<open>null\<close> when it is falsy (absent or 0) and is parsed otherwise.\<close>

definition parseCommand :: "PlaybackCommand \<Rightarrow> PlaybackCommand" where
  "parseCommand cmd =
     (if WhenIsString cmd then
        cmd\<lparr>PositionTicks := (case PositionTicks cmd of
                                 None \<Rightarrow> None
                               | Some p \<Rightarrow> if p = 0 then None else Some p),
            WhenIsString := False\<rparr>
      else cmd)"

definition processCommand :: "Env \<Rightarrow> PlaybackCommand option \<Rightarrow> SyncPlay \<Rightarrow> SyncPlay" where
  "processCommand env cmd0 s =
     (case cmd0 of
        None \<Rightarrow> s
      | Some raw \<Rightarrow>
         (let cmd = parseCommand raw
          in case syncPlayEnabledAt (manager s) of
               None \<Rightarrow>
                 logLine Debug ''SyncPlay processCommand: SyncPlay not enabled, ignoring command'' s
             | Some enabledAt \<Rightarrow>
                 if EmittedAt cmd < enabledAt then
                   logLine Debug ''SyncPlay processCommand: ignoring old command'' s
                 else if \<not> syncPlayReady (manager s) then
                   (logLine Debug ''SyncPlay processCommand: SyncPlay not ready, queued command'' s)
                     \<lparr>manager := (manager s)\<lparr>queuedCommand := Some cmd\<rparr>\<rparr>
                 else
                   (let s1 = s\<lparr>manager := (manager s)\<lparr>lastPlaybackCommand := Some cmd\<rparr>\<rparr>
                    in if \<not> playbackActive env then
                         logLine Debug ''SyncPlay processCommand: no active player!'' s1
                       else if Some (PlaylistItemId cmd) \<noteq> currentPlaylistItemId env then
                         logLine Warn ''SyncPlay processCommand: playlist item does not match!'' s1
                       else
                         applyCommand env cmd (logLine Log ''SyncPlay will'' s1))))"

section \<open>Drift correction\<close>

text \<open>The rate of SpeedToSync, in doubles: every operation of the source rounds its
  result. \<open>MinSpeed\<close> is the literal \<open>0.1\<close>; \<open>speedToSyncTimeFor\<close> is
  \<open>speedToSyncTime\<close> after the adjustment for a client that is ahead.\<close>

definition MinSpeed :: rat where
  "MinSpeed = roundDouble (1 / 10)"

definition speedToSyncTimeFor :: "rat \<Rightarrow> rat \<Rightarrow> rat" where
  "speedToSyncTimeFor speedToSyncTime diffMillis =
     (if diffMillis \<le> roundDouble (- speedToSyncTime * MinSpeed)
      then roundDouble (\<bar>diffMillis\<bar> / roundDouble (1 - MinSpeed))
      else speedToSyncTime)"

text \<open>\<open>1 + diffMillis / speedToSyncTime\<close>. A division by 0 gives \<open>Infinity\<close> or
  \<open>NaN\<close> in the source; \<open>None\<close> stands for both.\<close>

definition speedFor :: "rat \<Rightarrow> rat \<Rightarrow> rat option" where
  "speedFor speedToSyncTime diffMillis =
     (if speedToSyncTime = 0 then None
      else Some (roundDouble (1 + roundDouble (diffMillis / speedToSyncTime))))"

text \<open>The delay to recover, in milliseconds. The positions are counts of ticks, whole
  numbers far below \<open>2\<^sup>5\<^sup>3\<close> on which the sums and products of doubles are exact; the
  division by \<open>TicksPerMillisecond\<close> rounds.\<close>

definition diffMillisOf :: "Env \<Rightarrow> PlaybackCommand \<Rightarrow> rat" where
  "diffMillisOf env lastCmd =
     (let currentPositionTicks = pmCurrentTime env * TicksPerMillisecond;
          serverPositionTicks = estimateCurrentTicks env (ticksOf (PositionTicks lastCmd)) (When lastCmd)
      in roundDouble ((serverPositionTicks - currentPositionTicks) / TicksPerMillisecond))"

text \<open>The two branches of \<open>syncPlaybackTime\<close> that correct the drift, entered with
  the bookkeeping (\<open>lastSyncTime\<close>, \<open>playbackDiffMillis\<close>) done. SpeedToSync calls
  \<open>setPlaybackRate\<close> on \<open>currentPlayer\<close>, a \<open>TypeError\<close> if there is none; SkipToSync
  seeks through \<open>localSeek\<close>.\<close>

definition speedToSync :: "rat \<Rightarrow> rat \<Rightarrow> SyncPlay \<Rightarrow> SyncPlay" where
  "speedToSync speedToSyncTime diffMillis s1 =
     (let speedToSyncTime' = speedToSyncTimeFor speedToSyncTime diffMillis;
          speed = speedFor speedToSyncTime' diffMillis;
          s2 = (case speed of
                  None \<Rightarrow> s1
                | Some v \<Rightarrow>
                    if v \<le> 0
                    then logLine Error ''SyncPlay error: speed should not be negative!'' s1
                    else s1)
      in if \<not> hasCurrentPlayer (playbackCore s2) then throw TypeError s2
         else
           (let s3 = call (SetPlaybackRate speed) s2;
                s4 = s3\<lparr>playbackCore := (playbackCore s3)
                         \<lparr>syncEnabled := False,
                          syncAttempts := Suc (syncAttempts (playbackCore s3))\<rparr>\<rparr>;
                s5 = showSyncIcon (SpeedToSync speed) s4;
                (h, s6) = setTimeout CbSpeedToSyncEnd speedToSyncTime' s5
            in logLine Log ''SyncPlay SpeedToSync''
                 (s6\<lparr>playbackCore := (playbackCore s6)\<lparr>syncTimeout := Some h\<rparr>\<rparr>)))"

definition skipToSync :: "Env \<Rightarrow> rat \<Rightarrow> rat \<Rightarrow> SyncPlay \<Rightarrow> SyncPlay" where
  "skipToSync env syncMethodThreshold serverPositionTicks s1 =
     (let s2 = localSeek env (Some serverPositionTicks) s1
      in if threw s1 s2 then s2
         else
           (let s3 = s2\<lparr>playbackCore := (playbackCore s2)
                         \<lparr>syncEnabled := False,
                          syncAttempts := Suc (syncAttempts (playbackCore s2))\<rparr>\<rparr>;
                s4 = showSyncIcon (SkipToSync (syncAttempts (playbackCore s3))) s3;
                (h, s5) = setTimeout CbSkipToSyncEnd (syncMethodThreshold / 2) s4
            in logLine Log ''SyncPlay SkipToSync''
                 (s5\<lparr>playbackCore := (playbackCore s5)\<lparr>syncTimeout := Some h\<rparr>\<rparr>)))"

definition syncPlaybackTime :: "Env \<Rightarrow> SyncPlay \<Rightarrow> SyncPlay" where
  "syncPlaybackTime env s =
     (let syncMethodThreshold = maxDelaySpeedToSync (playbackCore s);
          speedToSyncTime = speedToSyncDuration (playbackCore s)
      in if \<not> playbackActive env then s
         else case lastCommand (playbackCore s) of
           None \<Rightarrow> s
         | Some lastCmd \<Rightarrow>
           if Command lastCmd \<noteq> Unpause \<or> isBuffering env s then s
           else
             (let currentTime = now env;
                  elapsed = of_int (currentTime - lastSyncTime (playbackCore s))
              in if elapsed < syncMethodThreshold / 2 then s
                 else
                   (let serverPositionTicks =
                          estimateCurrentTicks env (ticksOf (PositionTicks lastCmd)) (When lastCmd);
                        diffMillis = diffMillisOf env lastCmd;
                        s1 = s\<lparr>playbackCore := (playbackCore s)
                                 \<lparr>lastSyncTime := currentTime, playbackDiffMillis := diffMillis\<rparr>\<rparr>;
                        core = playbackCore s1
                    in if syncEnabled core \<and> enableSyncCorrection core then
                         (let absDiffMillis = \<bar>diffMillis\<bar>
                          in if playbackRateSupported core \<and> useSpeedToSync core
                                \<and> absDiffMillis \<ge> minDelaySpeedToSync core
                                \<and> absDiffMillis < maxDelaySpeedToSync core then
                               speedToSync speedToSyncTime diffMillis s1
                             else if useSkipToSync core \<and> absDiffMillis \<ge> minDelaySkipToSync core then
                               skipToSync env syncMethodThreshold serverPositionTicks s1
                             else
                               s1\<lparr>playbackCore := (playbackCore s1)\<lparr>syncAttempts := 0\<rparr>\<rparr>)
                       else s1)))"

section \<open>The event loop: timers and waiters\<close>

text \<open>The closures, run by the event loop. None of them catches an exception: when a
  call throws, the statements after it are skipped.\<close>

definition runCallback :: "Env \<Rightarrow> Callback \<Rightarrow> SyncPlay \<Rightarrow> SyncPlay" where
  "runCallback env cb s =
     (case cb of
        CbUnpause enableSyncTimeout \<Rightarrow>
          (let s0 = localUnpause env s
           in if threw s s0 then s0
              else (let s1 = call (Trigger ''notify-osd'') s0;
                        (h, s2) = setTimeout CbEnableSync enableSyncTimeout s1
                    in s2\<lparr>playbackCore := (playbackCore s2)\<lparr>syncTimeout := Some h\<rparr>\<rparr>))
      | CbEnableSync \<Rightarrow> s\<lparr>playbackCore := (playbackCore s)\<lparr>syncEnabled := True\<rparr>\<rparr>
      | CbNotifyOsdUnpause \<Rightarrow> call (Trigger ''notify-osd'') s
      | CbPause positionTicks \<Rightarrow> pauseCallback env positionTicks s
      | CbStop \<Rightarrow> stopCallback env s
      | CbSeek positionTicks \<Rightarrow> seekCallback env positionTicks s
      | CbLocalSeek positionTicks \<Rightarrow> localSeek env positionTicks s
      | CbPauseAndReady \<Rightarrow>
          (let s1 = localPause env s
           in if threw s s1 then s1 else sendBufferingRequest env False s1)
      | CbSeekTimedOut positionTicks \<Rightarrow> localSeek env positionTicks s
      | CbSpeedToSyncEnd \<Rightarrow>
          (if playbackActive env \<and> \<not> hasCurrentPlayer (playbackCore s) then throw TypeError s
           else (let s1 = (if playbackActive env then call (SetPlaybackRate (Some 1)) s else s)
                 in clearSyncIcon (s1\<lparr>playbackCore := (playbackCore s1)\<lparr>syncEnabled := True\<rparr>\<rparr>)))
      | CbSkipToSyncEnd \<Rightarrow>
          clearSyncIcon (s\<lparr>playbackCore := (playbackCore s)\<lparr>syncEnabled := True\<rparr>\<rparr>)
      | CbSendBuffering \<Rightarrow> sendBufferingRequest env True s
      | CbSyncPlayReady \<Rightarrow>
          (let s1 = s\<lparr>manager := (manager s)\<lparr>syncPlayReady := True\<rparr>\<rparr>;
               s2 = processCommand env (queuedCommand (manager s1)) s1
           in if threw s1 s2 then s2
              else s2\<lparr>manager := (manager s2)\<lparr>queuedCommand := None\<rparr>\<rparr>))"

text \<open>A pending timer fires: it leaves the queue and its closure runs. A handle that is
  not pending (never armed, fired or cleared) does nothing.\<close>

definition fireTimer :: "Env \<Rightarrow> nat \<Rightarrow> SyncPlay \<Rightarrow> SyncPlay" where
  "fireTimer env h s =
     (case find (\<lambda>t. fst t = h) (timers s) of
        None \<Rightarrow> s
      | Some t \<Rightarrow> runCallback env (snd (snd t)) (s\<lparr>timers := filter (\<lambda>t. fst t \<noteq> h) (timers s)\<rparr>))"

text \<open>The promise of a waiter is resolved: its \<open>then\<close> continuation runs, and if that
  throws, the \<open>catch\<close> continuation chained behind it, if any, takes the exception and
  runs.\<close>

definition resolveWaiter :: "Env \<Rightarrow> Waiter \<Rightarrow> SyncPlay \<Rightarrow> SyncPlay" where
  "resolveWaiter env w s =
     (let s1 = runCallback env (wThen w) s
      in if threw s s1 then
           (case wCatch w of
              None \<Rightarrow> s1
            | Some cb \<Rightarrow> runCallback env cb (s1\<lparr>uncaught := uncaught s\<rparr>))
         else s1)"

text \<open>An event is triggered: every waiter on it is removed, then the promises are
  resolved in the order of registration.\<close>

definition resolveWaiters :: "Env \<Rightarrow> EventName \<Rightarrow> SyncPlay \<Rightarrow> SyncPlay" where
  "resolveWaiters env ev s =
     foldl (\<lambda>acc w. resolveWaiter env w acc)
       (s\<lparr>waiters := filter (\<lambda>w. wEvent w \<noteq> ev) (waiters s)\<rparr>)
       (filter (\<lambda>w. wEvent w = ev) (waiters s))"

text \<open>The timeout of the waiter at position \<open>i\<close> expires: it is removed and its
  \<open>catch\<close> continuation, if any, runs. A waiter without timeout never expires.\<close>

definition rejectWaiter :: "Env \<Rightarrow> nat \<Rightarrow> SyncPlay \<Rightarrow> SyncPlay" where
  "rejectWaiter env i s =
     (if i < length (waiters s) \<and> wTimeout (waiters s ! i) \<noteq> None then
        (let w = waiters s ! i;
             s1 = s\<lparr>waiters := take i (waiters s) @ drop (Suc i) (waiters s)\<rparr>
         in case wCatch w of None \<Rightarrow> s1 | Some cb \<Rightarrow> runCallback env cb s1)
      else s)"

section \<open>Player events\<close>

definition onUnpause :: "Env \<Rightarrow> SyncPlay \<Rightarrow> SyncPlay" where
  "onUnpause env s = resolveWaiters env EvUnpause (call (Trigger ''unpause'') s)"

definition onPause :: "Env \<Rightarrow> SyncPlay \<Rightarrow> SyncPlay" where
  "onPause env s = resolveWaiters env EvPause (call (Trigger ''pause'') s)"

definition onTimeUpdate :: "Env \<Rightarrow> SyncPlay \<Rightarrow> SyncPlay" where
  "onTimeUpdate env s =
     (let s1 = syncPlaybackTime env s
      in if threw s s1 then s1 else call (Trigger ''timeupdate'') s1)"

definition onPlaying :: "Env \<Rightarrow> SyncPlay \<Rightarrow> SyncPlay" where
  "onPlaying env s =
     (let s1 = (if isBuffering env s then sendBufferingRequest env False s else s);
          s2 = clearTimeout (notifyBuffering (playbackCore s1)) s1;
          s3 = s2\<lparr>playbackCore := (playbackCore s2)\<lparr>lastPlaybackWaiting := None\<rparr>\<rparr>
      in resolveWaiters env EvPlaying (call (Trigger ''playing'') s3))"

definition onWaiting :: "Env \<Rightarrow> SyncPlay \<Rightarrow> SyncPlay" where
  "onWaiting env s =
     (let s1 = (if lastPlaybackWaiting (playbackCore s) = None
                then s\<lparr>playbackCore := (playbackCore s)\<lparr>lastPlaybackWaiting := Some (now env)\<rparr>\<rparr>
                else s);
          s2 = clearTimeout (notifyBuffering (playbackCore s1)) s1;
          (h, s3) = setTimeout CbSendBuffering (of_int (minBufferingThresholdMillis (playbackCore s2))) s2
      in call (Trigger ''waiting'')
           (s3\<lparr>playbackCore := (playbackCore s3)\<lparr>notifyBuffering := Some h\<rparr>\<rparr>))"

definition onPlayerChange :: "Player option \<Rightarrow> SyncPlay \<Rightarrow> SyncPlay" where
  "onPlayerChange player s =
     (let s1 = (if hasCurrentPlayer (playbackCore s) then
                  (let s0 = (if playbackRateSupported (playbackCore s)
                             then (call (SetPlaybackRate (Some (localPlayerPlaybackRate (playbackCore s)))) s)
                                    \<lparr>playbackCore := (playbackCore s)\<lparr>localPlayerPlaybackRate := 1\<rparr>\<rparr>
                             else s)
                   in s0\<lparr>playbackCore := (playbackCore s0)
                          \<lparr>hasCurrentPlayer := False, playbackRateSupported := False\<rparr>\<rparr>)
                else s);
          s2 = s1\<lparr>playbackCore := (playbackCore s1)\<lparr>hasCurrentPlayer := (player \<noteq> None)\<rparr>\<rparr>
      in case player of
           None \<Rightarrow> s2
         | Some p \<Rightarrow>
             if supportsPlaybackRate p
             then s2\<lparr>playbackCore := (playbackCore s2)
                      \<lparr>localPlayerPlaybackRate := getPlaybackRate p, playbackRateSupported := True\<rparr>\<rparr>
             else s2\<lparr>playbackCore := (playbackCore s2)\<lparr>playbackRateSupported := False\<rparr>\<rparr>)"

section \<open>SyncPlayManager: binding to a player\<close>

definition releaseCurrentPlayer :: "SyncPlay \<Rightarrow> SyncPlay" where
  "releaseCurrentPlayer s =
     (let s1 = (if hasPlayerWrapper (manager s)
                then (call WrapperUnbindFromPlayer s)\<lparr>manager := (manager s)\<lparr>hasPlayerWrapper := False\<rparr>\<rparr>
                else s)
      in onPlayerChange None (call (Trigger ''playerchange'') s1))"

definition bindToPlayer :: "Player option \<Rightarrow> SyncPlay \<Rightarrow> SyncPlay" where
  "bindToPlayer player s =
     (let s1 = releaseCurrentPlayer s
      in case player of
           None \<Rightarrow> s1
         | Some p \<Rightarrow>
             (let s2 = s1\<lparr>manager := (manager s1)\<lparr>hasPlayerWrapper := wrapperKnown p\<rparr>\<rparr>;
                  s3 = (if isSyncPlayEnabled s2 \<and> hasPlayerWrapper (manager s2)
                        then call WrapperBindToPlayer s2 else s2)
              in onPlayerChange (Some p) (call (Trigger ''playerchange'') s3)))"

definition onPlaybackStop :: "SyncPlay \<Rightarrow> SyncPlay" where
  "onPlaybackStop s =
     releaseCurrentPlayer
       (call (Trigger ''playbackstop'') (s\<lparr>playbackCore := (playbackCore s)\<lparr>lastCommand := None\<rparr>\<rparr>))"

section \<open>SyncPlayManager: enabling and disabling\<close>

text \<open>The playback core swaps the methods of its \<open>playbackManager\<close>: the current ones
  are saved as \<open>_local*\<close> and the \<open>*Request\<close> overrides installed; restoring puts the
  saved ones back. The manager does both once per session, guarded by the flag it keeps
  on the \<open>playbackManager\<close> of its own module. (The queue core swaps the queue methods
  of yet another object in the same way; no function here reads them.)\<close>

definition playbackCore_injectPlaybackManager :: "SyncPlay \<Rightarrow> SyncPlay" where
  "playbackCore_injectPlaybackManager s =
     (let pm = playbackManager s
      in s\<lparr>playbackManager :=
             pm\<lparr>pm_localPlayPause := pm_playPause pm,
                pm_localUnpause := pm_unpause pm,
                pm_localPause := pm_pause pm,
                pm_localSeek := pm_seek pm,
                pm_localSendCommand := pm_sendCommand pm,
                pm_playPause := RequestOverride,
                pm_unpause := RequestOverride,
                pm_pause := RequestOverride,
                pm_seek := RequestOverride,
                pm_sendCommand := RequestOverride\<rparr>\<rparr>)"

definition playbackCore_restorePlaybackManager :: "SyncPlay \<Rightarrow> SyncPlay" where
  "playbackCore_restorePlaybackManager s =
     (let pm = playbackManager s
      in s\<lparr>playbackManager :=
             pm\<lparr>pm_playPause := pm_localPlayPause pm,
                pm_unpause := pm_localUnpause pm,
                pm_pause := pm_localPause pm,
                pm_seek := pm_localSeek pm,
                pm_sendCommand := pm_localSendCommand pm\<rparr>\<rparr>)"

definition injectPlaybackManager :: "SyncPlay \<Rightarrow> SyncPlay" where
  "injectPlaybackManager s =
     (if \<not> isSyncPlayEnabled s then s
      else if pmSyncPlayEnabled (manager s) then s
      else (let s1 = playbackCore_injectPlaybackManager s
            in s1\<lparr>manager := (manager s1)\<lparr>pmSyncPlayEnabled := True\<rparr>\<rparr>))"

definition restorePlaybackManager :: "SyncPlay \<Rightarrow> SyncPlay" where
  "restorePlaybackManager s =
     (if isSyncPlayEnabled s then s
      else if \<not> pmSyncPlayEnabled (manager s) then s
      else (let s1 = playbackCore_restorePlaybackManager s
            in s1\<lparr>manager := (manager s1)\<lparr>pmSyncPlayEnabled := False\<rparr>\<rparr>))"

definition enableSyncPlay :: "Env \<Rightarrow> GroupInfo \<Rightarrow> SyncPlay \<Rightarrow> SyncPlay" where
  "enableSyncPlay env info s =
     (let s1 = s\<lparr>manager := (manager s)
                  \<lparr>groupInfo := Some info, syncPlayEnabledAt := Some (LastUpdatedAt info)\<rparr>\<rparr>;
          s2 = injectPlaybackManager s1;
          s3 = (if hasPlayerWrapper (manager s2) then call WrapperBindToPlayer s2 else s2);
          s4 = call (Trigger ''enabled'') s3;
          s5 = waitForEventOnce TimeSyncServerUpdate None CbSyncPlayReady None s4;
          s6 = s5\<lparr>manager := (manager s5)
                  \<lparr>syncPlayReady := False, followingGroupPlayback := True\<rparr>\<rparr>;
          s7 = call TimeSyncForceUpdate s6
      in if enableWebRTC env then call WebRTCEnable s7 else s7)"

definition disableSyncPlay :: "SyncPlay \<Rightarrow> SyncPlay" where
  "disableSyncPlay s =
     (let s1 = s\<lparr>manager := (manager s)
                  \<lparr>syncPlayEnabledAt := None, syncPlayReady := False,
                   followingGroupPlayback := True, lastPlaybackCommand := None,
                   queuedCommand := None\<rparr>\<rparr>;
          s2 = s1\<lparr>playbackCore := (playbackCore s1)\<lparr>syncEnabled := False\<rparr>\<rparr>;
          s3 = call (Trigger ''enabled'') s2;
          s4 = restorePlaybackManager s3;
          s5 = (if hasPlayerWrapper (manager s4) then call WrapperUnbindFromPlayer s4 else s4)
      in call WebRTCDisable s5)"

text \<open>Modelled from the spec: the settings store (settings/settings) is not among the
  sources. It is a key/value store; \<open>getFloat\<close> takes the default to use for a key that is
  not set.\<close>

record Settings =
  stMinDelaySpeedToSync :: "rat option"
  stMaxDelaySpeedToSync :: "rat option"
  stSpeedToSyncDuration :: "rat option"
  stMinDelaySkipToSync :: "rat option"
  stUseSpeedToSync :: bool
  stUseSkipToSync :: bool
  stEnableSyncCorrection :: bool

definition getFloat :: "rat option \<Rightarrow> rat \<Rightarrow> rat" where
  "getFloat v d = (case v of None \<Rightarrow> d | Some q \<Rightarrow> q)"

definition loadPreferences :: "Settings \<Rightarrow> SyncPlayPlaybackCore \<Rightarrow> SyncPlayPlaybackCore" where
  "loadPreferences st core =
     core\<lparr>minDelaySpeedToSync := getFloat (stMinDelaySpeedToSync st) 60,
          maxDelaySpeedToSync := getFloat (stMaxDelaySpeedToSync st) 3000,
          speedToSyncDuration := getFloat (stSpeedToSyncDuration st) 1000,
          minDelaySkipToSync := getFloat (stMinDelaySkipToSync st) 400,
          useSpeedToSync := stUseSpeedToSync st,
          useSkipToSync := stUseSkipToSync st,
          enableSyncCorrection := stEnableSyncCorrection st\<rparr>"

text \<open>The two constructors, at local time \<open>t0\<close>, and the stand-in \<open>playbackManager\<close>
  as the module creates it: none of the swapped methods exists.\<close>

definition newPlaybackManager :: PlaybackManager where
  "newPlaybackManager =
     \<lparr>pm_playPause = Undefined, pm_unpause = Undefined, pm_pause = Undefined,
      pm_seek = Undefined, pm_sendCommand = Undefined,
      pm_localPlayPause = Undefined, pm_localUnpause = Undefined, pm_localPause = Undefined,
      pm_localSeek = Undefined, pm_localSendCommand = Undefined\<rparr>"

definition newManager :: SyncPlayManager where
  "newManager =
     \<lparr>syncMethod = NoSync, groupInfo = None, syncPlayEnabledAt = None, syncPlayReady = False,
      queuedCommand = None, followingGroupPlayback = True, lastPlaybackCommand = None,
      hasPlayerWrapper = False, pmSyncPlayEnabled = False\<rparr>"

definition newPlaybackCore :: "Settings \<Rightarrow> int \<Rightarrow> SyncPlayPlaybackCore" where
  "newPlaybackCore st t0 =
     loadPreferences st
       \<lparr>playbackRateSupported = False, syncEnabled = False, playbackDiffMillis = 0,
        syncAttempts = 0, lastSyncTime = t0, enableSyncCorrection = True,
        lastPlaybackWaiting = None, minBufferingThresholdMillis = 1000,
        hasCurrentPlayer = False, localPlayerPlaybackRate = 1, lastCommand = None, scheduledCommandTimeout = None,
        syncTimeout = None, notifyBuffering = None,
        minDelaySpeedToSync = 0, maxDelaySpeedToSync = 0, speedToSyncDuration = 0,
        minDelaySkipToSync = 0, useSpeedToSync = False, useSkipToSync = False\<rparr>"

definition newSyncPlay :: "Settings \<Rightarrow> int \<Rightarrow> SyncPlay" where
  "newSyncPlay st t0 =
     \<lparr>manager = newManager, playbackCore = newPlaybackCore st t0,
      playbackManager = newPlaybackManager,
      timers = [], nextTimer = 1, waiters = [], calls = [], console = [], uncaught = []\<rparr>"

section \<open>Histories\<close>

text \<open>What can happen to the client, one event-loop turn at a time, and the states a
  history of such turns can reach from construction.\<close>

datatype Input =
    InCommand "PlaybackCommand option"
  | InGroupJoined GroupInfo
  | InGroupLeft
  | InTimeSyncUpdate
  | InTimer nat
  | InWaiterTimeout nat
  | InUnpause
  | InPause
  | InPlaying
  | InWaiting
  | InTimeUpdate
  | InPlaybackStop
  | InPlayerChange "Player option"

fun step :: "Env \<Rightarrow> Input \<Rightarrow> SyncPlay \<Rightarrow> SyncPlay" where
  "step env (InCommand c) s = processCommand env c s"
| "step env (InGroupJoined info) s = enableSyncPlay env info s"
| "step env InGroupLeft s = disableSyncPlay s"
| "step env InTimeSyncUpdate s = resolveWaiters env TimeSyncServerUpdate s"
| "step env (InTimer h) s = fireTimer env h s"
| "step env (InWaiterTimeout i) s = rejectWaiter env i s"
| "step env InUnpause s = onUnpause env s"
| "step env InPause s = onPause env s"
| "step env InPlaying s = onPlaying env s"
| "step env InWaiting s = onWaiting env s"
| "step env InTimeUpdate s = onTimeUpdate env s"
| "step env InPlaybackStop s = onPlaybackStop s"
| "step env (InPlayerChange player) s = bindToPlayer player s"

inductive reachable :: "SyncPlay \<Rightarrow> bool" where
  reachable_new: "reachable (newSyncPlay st t0)"
| reachable_step: "reachable s \<Longrightarrow> reachable (step env i s)"

section \<open>SyncPlayQueueCore\<close>

datatype QueueReason =
    NewPlaylist | SetCurrentItem | NextTrack | PreviousTrack | RemoveItems
  | MoveItem | Queue | QueueNext | RepeatModeReason | ShuffleModeReason | UnknownReason

record QueueUpdate =
  Reason :: QueueReason
  LastUpdate :: int
  Playlist :: "string list"
  PlayingItemIndex :: int
  StartPositionTicks :: int
  RepeatMode :: string
  ShuffleMode :: string

text \<open>Modelled from the spec: the queue manager (syncPlayQueueManager) is not among the
  sources. The spec's queue model holds the last applied update and answers
  \<open>lastUpdateTime()\<close>, \<open>currentPlaylistItemId()\<close>, \<open>repeatMode()\<close> and the rest from it;
  the item the local player is really playing is kept beside it. Applying an update
  that is not newer than the current one discards it.\<close>

record SyncPlayQueueManager =
  qLastUpdate :: int
  qPlaylist :: "string list"
  qCurrentIndex :: int
  qStartPositionTicks :: int
  qRepeatMode :: string
  qShuffleMode :: string
  qRealPlaylistItemId :: "string option"

definition getLastUpdateTime :: "SyncPlayQueueManager \<Rightarrow> int" where
  "getLastUpdateTime q = qLastUpdate q"

definition getCurrentPlaylistItemId :: "SyncPlayQueueManager \<Rightarrow> string option" where
  "getCurrentPlaylistItemId q =
     (if 0 \<le> qCurrentIndex q \<and> nat (qCurrentIndex q) < length (qPlaylist q)
      then Some (qPlaylist q ! nat (qCurrentIndex q)) else None)"

definition onPlayQueueUpdate :: "QueueUpdate \<Rightarrow> SyncPlayQueueManager \<Rightarrow> SyncPlayQueueManager" where
  "onPlayQueueUpdate u q =
     (if LastUpdate u \<le> qLastUpdate q then q
      else q\<lparr>qLastUpdate := LastUpdate u, qPlaylist := Playlist u,
             qCurrentIndex := PlayingItemIndex u, qStartPositionTicks := StartPositionTicks u,
             qRepeatMode := RepeatMode u, qShuffleMode := ShuffleMode u\<rparr>)"

text \<open>\<open>updatePlayQueue\<close> up to the promise: the guard on \<open>LastUpdate\<close>, then the
  hand-over to the queue manager. The boolean tells whether the update passed the
  guard, that is, whether the continuation below was registered.\<close>

definition updatePlayQueue :: "QueueUpdate \<Rightarrow> SyncPlayQueueManager \<Rightarrow> bool \<times> SyncPlayQueueManager" where
  "updatePlayQueue newPlayQueue q =
     (if LastUpdate newPlayQueue \<le> getLastUpdateTime q then (False, q)
      else (True, onPlayQueueUpdate newPlayQueue q))"

datatype QueueEffect =
    FollowGroupPlaybackThenStartPlayback
  | StartPlayback
  | LocalSetCurrentPlaylistItem "string option"
  | TriggerPlaylistItemAdd
  | LocalSetRepeatMode string
  | LocalSetQueueShuffleMode string
  | WarnTryingToApplyOldUpdate
  | ErrorUnknownReason

text \<open>The continuation of the promise, run in a later turn against the queue as it is
  then: what the queue core goes on to do.\<close>

definition updatePlayQueueThen ::
  "bool \<Rightarrow> bool \<Rightarrow> bool \<Rightarrow> QueueUpdate \<Rightarrow> SyncPlayQueueManager \<Rightarrow> QueueEffect list" where
  "updatePlayQueueThen isRemote following hasPlayer newPlayQueue q =
     (if LastUpdate newPlayQueue < getLastUpdateTime q then [WarnTryingToApplyOldUpdate]
      else if isRemote then []
      else case Reason newPlayQueue of
          NewPlaylist \<Rightarrow>
            (if \<not> following then [FollowGroupPlaybackThenStartPlayback] else [StartPlayback])
        | SetCurrentItem \<Rightarrow> [LocalSetCurrentPlaylistItem (getCurrentPlaylistItemId q)]
        | NextTrack \<Rightarrow> [LocalSetCurrentPlaylistItem (getCurrentPlaylistItemId q)]
        | PreviousTrack \<Rightarrow> [LocalSetCurrentPlaylistItem (getCurrentPlaylistItemId q)]
        | RemoveItems \<Rightarrow>
            (if hasPlayer then [TriggerPlaylistItemAdd] else [])
            @ (if qRealPlaylistItemId q \<noteq> getCurrentPlaylistItemId q
               then [LocalSetCurrentPlaylistItem (getCurrentPlaylistItemId q)] else [])
        | MoveItem \<Rightarrow> (if hasPlayer then [TriggerPlaylistItemAdd] else [])
        | Queue \<Rightarrow> (if hasPlayer then [TriggerPlaylistItemAdd] else [])
        | QueueNext \<Rightarrow> (if hasPlayer then [TriggerPlaylistItemAdd] else [])
        | RepeatModeReason \<Rightarrow> [LocalSetRepeatMode (qRepeatMode q)]
        | ShuffleModeReason \<Rightarrow> [LocalSetQueueShuffleMode (qShuffleMode q)]
        | UnknownReason \<Rightarrow> [ErrorUnknownReason])"

text \<open>A history of queue updates: the queue after all of them, and the \<open>LastUpdate\<close>
  values of those that passed the guard, in order of arrival.\<close>

fun updatePlayQueueAll :: "QueueUpdate list \<Rightarrow> SyncPlayQueueManager \<Rightarrow> SyncPlayQueueManager" where
  "updatePlayQueueAll [] q = q"
| "updatePlayQueueAll (u # us) q = updatePlayQueueAll us (snd (updatePlayQueue u q))"

fun appliedLastUpdates :: "QueueUpdate list \<Rightarrow> SyncPlayQueueManager \<Rightarrow> int list" where
  "appliedLastUpdates [] q = []"
| "appliedLastUpdates (u # us) q =
     (if fst (updatePlayQueue u q)
      then LastUpdate u # appliedLastUpdates us (snd (updatePlayQueue u q))
      else appliedLastUpdates us (snd (updatePlayQueue u q)))"

section \<open>Concrete inputs\<close>

text \<open>A client with the default thresholds, a group joined at remote time 0 in which the
  user has playback access, and an \<open>Unpause\<close> of item A emitted at 1500 for remote time
  2000. The environment reads local time 1000, no clock offset, an active local player
  on the generic wrapper, the stand-in's position 0 and paused, and A as the current
  item.\<close>

definition exampleSettings :: Settings where
  "exampleSettings =
     \<lparr>stMinDelaySpeedToSync = None, stMaxDelaySpeedToSync = None, stSpeedToSyncDuration = None,
      stMinDelaySkipToSync = None, stUseSpeedToSync = True, stUseSkipToSync = True,
      stEnableSyncCorrection = True\<rparr>"

definition exampleEnv :: Env where
  "exampleEnv =
     \<lparr>now = 1000, timeOffset = 0, playbackActive = True, remote = False,
      wrapperRequests = SendsRequests, pmCurrentTime = 0, pmIsPaused = True,
      currentPlaylistItemId = Some ''A'', random = 1 / 2, enableWebRTC = False,
      currentUserId = ''user'', stackDepth = 1000\<rparr>"

definition exampleGroup :: GroupInfo where
  "exampleGroup =
     \<lparr>GroupId = ''group'', LastUpdatedAt = 0,
      AccessList = [(''user'', \<lparr>PlaybackAccess = True, PlaylistAccess = True\<rparr>)]\<rparr>"

definition exampleUnpause :: PlaybackCommand where
  "exampleUnpause =
     \<lparr>When = 2000, EmittedAt = 1500, PositionTicks = None, Command = Unpause,
      PlaylistItemId = ''A'', WhenIsString = False\<rparr>"

text \<open>The client after joining the group; after the first time sync update; and after
  the \<open>Unpause\<close> arrived at local time 1000 once ready.\<close>

definition joinedSyncPlay :: SyncPlay where
  "joinedSyncPlay = step exampleEnv (InGroupJoined exampleGroup) (newSyncPlay exampleSettings 0)"

definition readySyncPlay :: SyncPlay where
  "readySyncPlay = step exampleEnv InTimeSyncUpdate joinedSyncPlay"

definition scheduledSyncPlay :: SyncPlay where
  "scheduledSyncPlay = step exampleEnv (InCommand (Some exampleUnpause)) readySyncPlay"

text \<open>The same history with a player that supports the playback rate bound first, and
  carried on: the scheduled unpause fires at local time 2000 and drift correction is
  switched on at 3500.\<close>

definition examplePlayer :: Player where
  "examplePlayer = \<lparr>wrapperKnown = True, supportsPlaybackRate = True, getPlaybackRate = 1\<rparr>"

definition playingSyncPlay :: SyncPlay where
  "playingSyncPlay =
     foldl (\<lambda>s (env, i). step env i s) (newSyncPlay exampleSettings 0)
       [(exampleEnv, InPlayerChange (Some examplePlayer)),
        (exampleEnv, InGroupJoined exampleGroup),
        (exampleEnv, InTimeSyncUpdate),
        (exampleEnv, InCommand (Some exampleUnpause)),
        (exampleEnv\<lparr>now := 2000\<rparr>, InTimer 1),
        (exampleEnv\<lparr>now := 3500\<rparr>, InTimer 2)]"

text \<open>The environment at local time 6000 in which the estimated server position is
  \<open>d\<close> milliseconds ahead of the player's.\<close>

definition driftEnv :: "int \<Rightarrow> Env" where
  "driftEnv d = exampleEnv\<lparr>now := 6000, timeOffset := d - 4000\<rparr>"

text \<open>The playing client after a time update at local time 6000 found it 60 ms behind
  and started SpeedToSync.\<close>

definition speedingSyncPlay :: SyncPlay where
  "speedingSyncPlay = step (driftEnv 60) InTimeUpdate playingSyncPlay"

text \<open>A \<open>Stop\<close> of item A emitted at 100 for remote time 500, and the client that
  received it after joining, before the first time sync update.\<close>

definition exampleStop :: PlaybackCommand where
  "exampleStop =
     \<lparr>When = 500, EmittedAt = 100, PositionTicks = None, Command = Stop,
      PlaylistItemId = ''A'', WhenIsString = False\<rparr>"

definition queuedStopSyncPlay :: SyncPlay where
  "queuedStopSyncPlay = step exampleEnv (InCommand (Some exampleStop)) joinedSyncPlay"

text \<open>The environment of a remote self-managed player (\<open>SyncPlayRemotePlayer\<close>), and
  the ready client after the \<open>Unpause\<close> arrived with it at local time 1000.\<close>

definition remoteEnv :: Env where
  "remoteEnv = exampleEnv\<lparr>remote := True, wrapperRequests := CallsLocal\<rparr>"

definition remoteSyncPlay :: SyncPlay where
  "remoteSyncPlay = step remoteEnv (InCommand (Some exampleUnpause)) readySyncPlay"

text \<open>An empty queue last updated at remote time 10, and two updates of it: a new
  playlist stamped 100 and a change of item stamped 50.\<close>

definition exampleQueue :: SyncPlayQueueManager where
  "exampleQueue =
     \<lparr>qLastUpdate = 10, qPlaylist = [], qCurrentIndex = 0, qStartPositionTicks = 0,
      qRepeatMode = ''RepeatNone'', qShuffleMode = ''Sorted'', qRealPlaylistItemId = None\<rparr>"

definition exampleUpdate100 :: QueueUpdate where
  "exampleUpdate100 =
     \<lparr>Reason = NewPlaylist, LastUpdate = 100, Playlist = [''A'', ''B''], PlayingItemIndex = 0,
      StartPositionTicks = 0, RepeatMode = ''RepeatNone'', ShuffleMode = ''Sorted''\<rparr>"

definition exampleUpdate50 :: QueueUpdate where
  "exampleUpdate50 =
     \<lparr>Reason = SetCurrentItem, LastUpdate = 50, Playlist = [''A'', ''B''], PlayingItemIndex = 1,
      StartPositionTicks = 0, RepeatMode = ''RepeatNone'', ShuffleMode = ''Sorted''\<rparr>"

section \<open>Evaluating the concrete inputs\<close>

lemmas basic_defs = logLine_def call_def setTimeout_def clearTimeout_def waitForEventOnce_def
  showSyncIcon_def clearSyncIcon_def localUnpause_def localPause_def localSeek_def localStop_def
  sendBufferingRequest_def clearScheduledCommand_def pauseCallback_def stopCallback_def
  seekCallback_def throw_def threw_def callMethod_def standInSyncPlayEnabled_def
  unpauseRequest_def pauseRequest_def seekRequest_def hasPlaybackAccess_def
  hasUserPlaybackAccess_def

lemmas inject_defs = injectPlaybackManager_def restorePlaybackManager_def
  playbackCore_injectPlaybackManager_def playbackCore_restorePlaybackManager_def
  newPlaybackManager_def isSyncPlayEnabled_def

lemmas number_defs = remoteDateToLocal_def localDateToRemote_def TicksPerMillisecond_def
  toNumber_def ticksOf_def estimateCurrentTicks_def

lemma joinedSyncPlay_eq:
  "joinedSyncPlay =
     \<lparr>manager =
        \<lparr>syncMethod = NoSync, groupInfo = Some exampleGroup, syncPlayEnabledAt = Some 0,
         syncPlayReady = False, queuedCommand = None, followingGroupPlayback = True,
         lastPlaybackCommand = None, hasPlayerWrapper = False, pmSyncPlayEnabled = True\<rparr>,
      playbackCore = newPlaybackCore exampleSettings 0,
      playbackManager = newPlaybackManager
        \<lparr>pm_playPause := RequestOverride, pm_unpause := RequestOverride,
         pm_pause := RequestOverride, pm_seek := RequestOverride,
         pm_sendCommand := RequestOverride\<rparr>,
      timers = [], nextTimer = 1,
      waiters = [\<lparr>wEvent = TimeSyncServerUpdate, wTimeout = None, wThen = CbSyncPlayReady,
                  wCatch = None\<rparr>],
      calls = [Trigger ''enabled'', TimeSyncForceUpdate], console = [], uncaught = []\<rparr>"
  by (simp add: joinedSyncPlay_def newSyncPlay_def newManager_def exampleEnv_def exampleGroup_def
      enableSyncPlay_def inject_defs basic_defs Let_def)

lemma readySyncPlay_eq:
  "readySyncPlay =
     \<lparr>manager =
        \<lparr>syncMethod = NoSync, groupInfo = Some exampleGroup, syncPlayEnabledAt = Some 0,
         syncPlayReady = True, queuedCommand = None, followingGroupPlayback = True,
         lastPlaybackCommand = None, hasPlayerWrapper = False, pmSyncPlayEnabled = True\<rparr>,
      playbackCore = newPlaybackCore exampleSettings 0,
      playbackManager = newPlaybackManager
        \<lparr>pm_playPause := RequestOverride, pm_unpause := RequestOverride,
         pm_pause := RequestOverride, pm_seek := RequestOverride,
         pm_sendCommand := RequestOverride\<rparr>,
      timers = [], nextTimer = 1, waiters = [],
      calls = [Trigger ''enabled'', TimeSyncForceUpdate], console = [], uncaught = []\<rparr>"
  by (simp add: readySyncPlay_def joinedSyncPlay_eq resolveWaiters_def resolveWaiter_def
      runCallback_def processCommand_def threw_def)

lemma scheduledSyncPlay_eq:
  "scheduledSyncPlay =
     \<lparr>manager =
        \<lparr>syncMethod = NoSync, groupInfo = Some exampleGroup, syncPlayEnabledAt = Some 0,
         syncPlayReady = True, queuedCommand = None, followingGroupPlayback = True,
         lastPlaybackCommand = Some exampleUnpause, hasPlayerWrapper = False,
         pmSyncPlayEnabled = True\<rparr>,
      playbackCore = (newPlaybackCore exampleSettings 0)
        \<lparr>lastCommand := Some exampleUnpause, scheduledCommandTimeout := Some 1\<rparr>,
      playbackManager = newPlaybackManager
        \<lparr>pm_playPause := RequestOverride, pm_unpause := RequestOverride,
         pm_pause := RequestOverride, pm_seek := RequestOverride,
         pm_sendCommand := RequestOverride\<rparr>,
      timers = [(1, 1000, CbUnpause 1500)], nextTimer = 2, waiters = [],
      calls = [Trigger ''enabled'', TimeSyncForceUpdate, Trigger ''syncing''],
      console = [(Log, ''SyncPlay will'')], uncaught = []\<rparr>"
  by (simp add: scheduledSyncPlay_def readySyncPlay_eq processCommand_def parseCommand_def
      applyCommand_def isDuplicate_def scheduleUnpause_def newPlaybackCore_def loadPreferences_def
      getFloat_def number_defs exampleSettings_def exampleEnv_def exampleUnpause_def basic_defs
      Let_def)

section \<open>Null commands\<close>

text \<open>
  C10. \<open>processCommand\<close> called with \<open>null\<close> returns at once and changes nothing. The
  flush that \<open>enableSyncPlay\<close> registers for the first time sync update calls
  \<open>processCommand\<close> with the stored \<open>queuedCommand\<close>; when nothing was queued, all the
  flush does is set \<open>syncPlayReady\<close>.
\<close>

theorem processCommand_null:
  "processCommand env None s = s
   \<and> (queuedCommand (manager s) = None \<longrightarrow>
        runCallback env CbSyncPlayReady s = s\<lparr>manager := (manager s)\<lparr>syncPlayReady := True\<rparr>\<rparr>)"
  by (simp add: processCommand_def runCallback_def threw_def)

theorem processCommand_null_witness:
  "queuedCommand (manager joinedSyncPlay) = None
   \<and> processCommand exampleEnv None joinedSyncPlay = joinedSyncPlay
   \<and> runCallback exampleEnv CbSyncPlayReady joinedSyncPlay
       = joinedSyncPlay\<lparr>manager := (manager joinedSyncPlay)\<lparr>syncPlayReady := True\<rparr>\<rparr>"
  using processCommand_null [of exampleEnv joinedSyncPlay]
  by (simp add: joinedSyncPlay_eq)

section \<open>Queue updates\<close>

lemma updatePlayQueue_grows:
  "getLastUpdateTime q \<le> getLastUpdateTime (snd (updatePlayQueue u q))"
  by (simp add: updatePlayQueue_def onPlayQueueUpdate_def getLastUpdateTime_def)

lemma updatePlayQueue_applied:
  assumes "fst (updatePlayQueue u q)"
  shows "getLastUpdateTime (snd (updatePlayQueue u q)) = LastUpdate u"
    and "getLastUpdateTime q < LastUpdate u"
  using assms
  by (simp_all add: updatePlayQueue_def onPlayQueueUpdate_def getLastUpdateTime_def split: if_splits)

lemma appliedLastUpdates_newer:
  "t \<in> set (appliedLastUpdates us q) \<Longrightarrow> getLastUpdateTime q < t"
proof (induction us arbitrary: q)
  case Nil
  then show ?case by simp
next
  case (Cons u us)
  let ?q = "snd (updatePlayQueue u q)"
  show ?case
  proof (cases "fst (updatePlayQueue u q)")
    case True
    with Cons.prems have "t = LastUpdate u \<or> t \<in> set (appliedLastUpdates us ?q)"
      by simp
    then show ?thesis
      using updatePlayQueue_applied [OF True] Cons.IH [of ?q] by auto
  next
    case False
    with Cons.prems have "t \<in> set (appliedLastUpdates us ?q)"
      by simp
    then show ?thesis
      using Cons.IH [of ?q] updatePlayQueue_grows [of q u] by force
  qed
qed

lemma appliedLastUpdates_increasing: "sorted_wrt (<) (appliedLastUpdates us q)"
proof (induction us arbitrary: q)
  case Nil
  then show ?case by simp
next
  case (Cons u us)
  let ?q = "snd (updatePlayQueue u q)"
  show ?case
  proof (cases "fst (updatePlayQueue u q)")
    case True
    then show ?thesis
      using Cons.IH [of ?q] appliedLastUpdates_newer [of _ us ?q] updatePlayQueue_applied(1) [OF True]
      by auto
  next
    case False
    then show ?thesis using Cons.IH by simp
  qed
qed

text \<open>
  C6. \<open>updatePlayQueue\<close> lets an update through to the queue manager exactly when its
  \<open>LastUpdate\<close> is strictly newer than the stored last update time; an update that is
  not newer is discarded and the queue stays as it was. Over every history of updates,
  from every queue, the \<open>LastUpdate\<close> values that were applied are strictly increasing.
\<close>

theorem updatePlayQueue_strictly_newer:
  "fst (updatePlayQueue u q) = (getLastUpdateTime q < LastUpdate u)
   \<and> (LastUpdate u \<le> getLastUpdateTime q \<longrightarrow> updatePlayQueue u q = (False, q))
   \<and> (getLastUpdateTime q < LastUpdate u \<longrightarrow>
         getLastUpdateTime (snd (updatePlayQueue u q)) = LastUpdate u)
   \<and> sorted_wrt (<) (appliedLastUpdates us q)
   \<and> (\<forall>t \<in> set (appliedLastUpdates us q). getLastUpdateTime q < t)"
proof -
  have "fst (updatePlayQueue u q) = (getLastUpdateTime q < LastUpdate u)"
    by (auto simp add: updatePlayQueue_def)
  moreover have "LastUpdate u \<le> getLastUpdateTime q \<longrightarrow> updatePlayQueue u q = (False, q)"
    by (simp add: updatePlayQueue_def)
  moreover have "getLastUpdateTime q < LastUpdate u \<longrightarrow>
      getLastUpdateTime (snd (updatePlayQueue u q)) = LastUpdate u"
    by (simp add: updatePlayQueue_def onPlayQueueUpdate_def getLastUpdateTime_def)
  ultimately show ?thesis
    using appliedLastUpdates_increasing [of us q] appliedLastUpdates_newer [of _ us q] by blast
qed

theorem updatePlayQueue_strictly_newer_witness:
  "LastUpdate exampleUpdate50 \<le> getLastUpdateTime (snd (updatePlayQueue exampleUpdate100 exampleQueue))
   \<and> updatePlayQueue exampleUpdate50 (snd (updatePlayQueue exampleUpdate100 exampleQueue))
       = (False, snd (updatePlayQueue exampleUpdate100 exampleQueue))
   \<and> getLastUpdateTime exampleQueue < LastUpdate exampleUpdate100
   \<and> getLastUpdateTime (snd (updatePlayQueue exampleUpdate100 exampleQueue)) = 100
   \<and> appliedLastUpdates [exampleUpdate100, exampleUpdate50, exampleUpdate100] exampleQueue = [100]
   \<and> getLastUpdateTime exampleQueue = 10"
  using updatePlayQueue_strictly_newer
          [of exampleUpdate50 "snd (updatePlayQueue exampleUpdate100 exampleQueue)" "[]"]
        updatePlayQueue_strictly_newer
          [of exampleUpdate100 exampleQueue "[exampleUpdate100, exampleUpdate50, exampleUpdate100]"]
  by (simp add: updatePlayQueue_def onPlayQueueUpdate_def getLastUpdateTime_def exampleQueue_def
      exampleUpdate100_def exampleUpdate50_def)

section \<open>Duplicate commands\<close>

text \<open>The \<open>local*\<close> methods change nothing but the calls and the uncaught
  exceptions.\<close>

lemmas local_defs = localUnpause_def localPause_def localSeek_def localStop_def callMethod_def
  unpauseRequest_def pauseRequest_def seekRequest_def throw_def call_def

lemmas frame_defs = logLine_def call_def setTimeout_def clearTimeout_def waitForEventOnce_def
  showSyncIcon_def clearSyncIcon_def sendBufferingRequest_def clearScheduledCommand_def
  pauseCallback_def stopCallback_def seekCallback_def

lemma playbackCore_local:
  "playbackCore (localUnpause env s) = playbackCore s"
  "playbackCore (localPause env s) = playbackCore s"
  "playbackCore (localSeek env p s) = playbackCore s"
  "playbackCore (localStop env s) = playbackCore s"
  by (simp_all add: local_defs split: Method.splits WrapperRequests.splits)

lemma lastCommand_scheduleUnpause:
  "lastCommand (playbackCore (scheduleUnpause env t p s)) = lastCommand (playbackCore s)"
  by (simp add: scheduleUnpause_def frame_defs playbackCore_local Let_def
      split: option.splits prod.splits)

lemma lastCommand_schedulePause:
  "lastCommand (playbackCore (schedulePause env t p s)) = lastCommand (playbackCore s)"
  by (simp add: schedulePause_def frame_defs playbackCore_local Let_def
      split: option.splits prod.splits)

lemma lastCommand_scheduleStop:
  "lastCommand (playbackCore (scheduleStop env t s)) = lastCommand (playbackCore s)"
  by (simp add: scheduleStop_def frame_defs playbackCore_local Let_def
      split: option.splits prod.splits)

lemma lastCommand_scheduleSeek:
  "lastCommand (playbackCore (scheduleSeek env t p s)) = lastCommand (playbackCore s)"
  by (simp add: scheduleSeek_def frame_defs playbackCore_local Let_def
      split: option.splits prod.splits)

lemmas lastCommand_schedule = lastCommand_scheduleUnpause lastCommand_schedulePause
  lastCommand_scheduleStop lastCommand_scheduleSeek

text \<open>After \<open>applyCommand\<close>, the command is a duplicate of \<open>lastCommand\<close>: either it
  was one already and \<open>lastCommand\<close> stayed, or it was recorded.\<close>

lemma isDuplicate_applyCommand: "isDuplicate (applyCommand env c s) c"
proof (cases "isDuplicate s c")
  case True
  then have "lastCommand (playbackCore (applyCommand env c s)) = lastCommand (playbackCore s)"
    by (simp add: applyCommand_def Let_def lastCommand_schedule logLine_def
        sendBufferingRequest_def call_def split: CommandKind.splits)
  with True show ?thesis by (simp add: isDuplicate_def)
next
  case False
  then have "lastCommand (playbackCore (applyCommand env c s)) = Some c"
    by (simp add: applyCommand_def Let_def lastCommand_schedule logLine_def
        split: CommandKind.splits)
  then show ?thesis by (simp add: isDuplicate_def)
qed

lemma applyCommand_duplicate_future:
  assumes "isDuplicate s c" and "now env < remoteDateToLocal env (When c)"
  shows "applyCommand env c s =
           s\<lparr>console := console s
               @ [(Debug, ''SyncPlay applyCommand: duplicate command received!''),
                  (Debug, ''SyncPlay applyCommand: command already scheduled.'')]\<rparr>"
  using assms by (simp add: applyCommand_def Let_def logLine_def)

text \<open>
  C4. A command that equals \<open>lastCommand\<close> on \<open>When\<close>, \<open>PositionTicks\<close>, \<open>Command\<close>
  and \<open>PlaylistItemId\<close>, applied while its local firing time \<open>remoteDateToLocal(When)\<close>
  is still in the future, changes nothing but the console (two debug lines): manager,
  playback core, timers, waiters and calls stay as they are. In particular a second
  \<open>applyCommand\<close> of the same command leaves the state of the first call alone.
\<close>

theorem applyCommand_duplicate_ignored:
  "(isDuplicate s c \<and> now env2 < remoteDateToLocal env2 (When c) \<longrightarrow>
      applyCommand env2 c s =
        s\<lparr>console := console s
            @ [(Debug, ''SyncPlay applyCommand: duplicate command received!''),
               (Debug, ''SyncPlay applyCommand: command already scheduled.'')]\<rparr>)
   \<and> (now env2 < remoteDateToLocal env2 (When c) \<longrightarrow>
      applyCommand env2 c (applyCommand env1 c s) =
        (applyCommand env1 c s)\<lparr>console := console (applyCommand env1 c s)
            @ [(Debug, ''SyncPlay applyCommand: duplicate command received!''),
               (Debug, ''SyncPlay applyCommand: command already scheduled.'')]\<rparr>)"
  using applyCommand_duplicate_future [of s c env2]
    applyCommand_duplicate_future [OF isDuplicate_applyCommand, of env2 c env1 s]
  by blast

theorem applyCommand_duplicate_ignored_witness:
  "isDuplicate scheduledSyncPlay exampleUnpause
   \<and> now (exampleEnv\<lparr>now := 1500\<rparr>)
        < remoteDateToLocal (exampleEnv\<lparr>now := 1500\<rparr>) (When exampleUnpause)
   \<and> applyCommand (exampleEnv\<lparr>now := 1500\<rparr>) exampleUnpause scheduledSyncPlay =
        scheduledSyncPlay\<lparr>console := console scheduledSyncPlay
            @ [(Debug, ''SyncPlay applyCommand: duplicate command received!''),
               (Debug, ''SyncPlay applyCommand: command already scheduled.'')]\<rparr>
   \<and> timers (applyCommand (exampleEnv\<lparr>now := 1500\<rparr>) exampleUnpause
                (applyCommand exampleEnv exampleUnpause readySyncPlay))
        = timers (applyCommand exampleEnv exampleUnpause readySyncPlay)
   \<and> calls (applyCommand (exampleEnv\<lparr>now := 1500\<rparr>) exampleUnpause
                (applyCommand exampleEnv exampleUnpause readySyncPlay))
        = calls (applyCommand exampleEnv exampleUnpause readySyncPlay)"
proof -
  have dup: "isDuplicate scheduledSyncPlay exampleUnpause"
    by (simp add: scheduledSyncPlay_eq isDuplicate_def)
  have future: "now (exampleEnv\<lparr>now := 1500\<rparr>)
        < remoteDateToLocal (exampleEnv\<lparr>now := 1500\<rparr>) (When exampleUnpause)"
    by (simp add: exampleEnv_def exampleUnpause_def remoteDateToLocal_def)
  note inst1 = applyCommand_duplicate_ignored
    [of scheduledSyncPlay exampleUnpause "exampleEnv\<lparr>now := 1500\<rparr>" exampleEnv]
  note inst2 = applyCommand_duplicate_ignored
    [of readySyncPlay exampleUnpause "exampleEnv\<lparr>now := 1500\<rparr>" exampleEnv]
  from inst1 dup future have one:
    "applyCommand (exampleEnv\<lparr>now := 1500\<rparr>) exampleUnpause scheduledSyncPlay =
        scheduledSyncPlay\<lparr>console := console scheduledSyncPlay
            @ [(Debug, ''SyncPlay applyCommand: duplicate command received!''),
               (Debug, ''SyncPlay applyCommand: command already scheduled.'')]\<rparr>"
    by blast
  from inst2 future have two:
    "applyCommand (exampleEnv\<lparr>now := 1500\<rparr>) exampleUnpause
        (applyCommand exampleEnv exampleUnpause readySyncPlay) =
        (applyCommand exampleEnv exampleUnpause readySyncPlay)
          \<lparr>console := console (applyCommand exampleEnv exampleUnpause readySyncPlay)
            @ [(Debug, ''SyncPlay applyCommand: duplicate command received!''),
               (Debug, ''SyncPlay applyCommand: command already scheduled.'')]\<rparr>"
    by blast
  show ?thesis using dup future one by (simp add: two)
qed

section \<open>Remote players\<close>

text \<open>When the player wrapper reports \<open>isRemote()\<close>, a command that is not a duplicate
  of \<open>lastCommand\<close> is recorded and nothing else happens.\<close>

lemma applyCommand_remote_recorded:
  assumes "remote env" and "\<not> isDuplicate s c"
  shows "applyCommand env c s = s\<lparr>playbackCore := (playbackCore s)\<lparr>lastCommand := Some c\<rparr>\<rparr>"
  using assms by (simp add: applyCommand_def Let_def)

lemma remoteSyncPlay_eq:
  "remoteSyncPlay =
     readySyncPlay
       \<lparr>manager := (manager readySyncPlay)\<lparr>lastPlaybackCommand := Some exampleUnpause\<rparr>,
        playbackCore := (playbackCore readySyncPlay)\<lparr>lastCommand := Some exampleUnpause\<rparr>,
        console := [(Log, ''SyncPlay will'')]\<rparr>"
  by (simp add: remoteSyncPlay_def remoteEnv_def readySyncPlay_eq processCommand_def
      parseCommand_def applyCommand_def isDuplicate_def newPlaybackCore_def loadPreferences_def
      exampleEnv_def exampleUnpause_def logLine_def Let_def)

text \<open>
  C3. The test of \<open>isRemote()\<close> guards the commands that are not duplicates only: the
  branch for a duplicate of \<open>lastCommand\<close> comes first and returns before the test.
  With the wrapper of a remote player, the \<open>Unpause\<close> for remote time 2000 arrives at
  local time 1000 and is recorded, and nothing else happens. The same command arriving
  again at local time 3000 is a duplicate whose time has passed: \<open>scheduleUnpause\<close>
  runs, registers its wait for the \<open>unpause\<close> event and calls \<open>localUnpause\<close>. That
  call goes to the override the core installed on \<open>playbackManager\<close> and on to the
  wrapper, which hands it back to \<open>localUnpause\<close>, until the stack overflows; for a user
  without playback access the override returns at once, and \<open>scheduleUnpause\<close> goes on to
  arm its two timers.
\<close>

theorem applyCommand_remote_duplicate:
  "remote (remoteEnv\<lparr>now := 3000\<rparr>)
   \<and> calls remoteSyncPlay = calls readySyncPlay
   \<and> timers remoteSyncPlay = []
   \<and> waiters remoteSyncPlay = []
   \<and> lastCommand (playbackCore remoteSyncPlay) = Some exampleUnpause
   \<and> isDuplicate remoteSyncPlay exampleUnpause
   \<and> applyCommand (remoteEnv\<lparr>now := 3000\<rparr>) exampleUnpause remoteSyncPlay =
        scheduleUnpause (remoteEnv\<lparr>now := 3000\<rparr>) 2000 None
          (logLine Debug ''SyncPlay applyCommand: duplicate command received!'' remoteSyncPlay)
   \<and> waiters (applyCommand (remoteEnv\<lparr>now := 3000\<rparr>) exampleUnpause remoteSyncPlay) =
        [\<lparr>wEvent = EvUnpause, wTimeout = None, wThen = CbLocalSeek (Some 10000000),
          wCatch = None\<rparr>]
   \<and> calls (applyCommand (remoteEnv\<lparr>now := 3000\<rparr>) exampleUnpause remoteSyncPlay) =
        calls remoteSyncPlay @ [Trigger ''syncing'']
   \<and> uncaught (applyCommand (remoteEnv\<lparr>now := 3000\<rparr>) exampleUnpause remoteSyncPlay) =
        [RangeError]
   \<and> timers (applyCommand (remoteEnv\<lparr>now := 3000, currentUserId := ''guest''\<rparr>)
               exampleUnpause remoteSyncPlay) =
        [(1, 100, CbNotifyOsdUnpause), (2, 1500, CbEnableSync)]
   \<and> uncaught (applyCommand (remoteEnv\<lparr>now := 3000, currentUserId := ''guest''\<rparr>)
                 exampleUnpause remoteSyncPlay) = []"
  by (simp add: remoteSyncPlay_eq readySyncPlay_eq applyCommand_def isDuplicate_def
      scheduleUnpause_def newPlaybackCore_def loadPreferences_def getFloat_def number_defs
      exampleSettings_def exampleEnv_def remoteEnv_def exampleUnpause_def exampleGroup_def
      newPlaybackManager_def basic_defs Let_def)

section \<open>Command routing\<close>

lemma syncPlayEnabledAt_enableSyncPlay:
  "syncPlayEnabledAt (manager (enableSyncPlay env info s)) = Some (LastUpdatedAt info)"
  by (simp add: enableSyncPlay_def Let_def inject_defs basic_defs)

lemma processCommand_not_enabled:
  "syncPlayEnabledAt (manager s) = None \<Longrightarrow>
     processCommand env (Some c) s =
       logLine Debug ''SyncPlay processCommand: SyncPlay not enabled, ignoring command'' s"
  by (simp add: processCommand_def Let_def)

lemma processCommand_old:
  "syncPlayEnabledAt (manager s) = Some t \<Longrightarrow> EmittedAt c < t \<Longrightarrow>
     processCommand env (Some c) s =
       logLine Debug ''SyncPlay processCommand: ignoring old command'' s"
  by (simp add: processCommand_def Let_def parseCommand_def)

text \<open>
  C1, as the code has it. In a session that is enabled, ready and has an active player,
  a command whose \<open>PlaylistItemId\<close> differs from the current playlist item id never
  reaches \<open>applyCommand\<close>: the playback core, the timers, the waiters and the calls stay
  as they are. A command emitted before the session was enabled is dropped with a
  debug line and no other change. Any other one is dropped with a warning, after it
  was stored in \<open>lastPlaybackCommand\<close>, the last command received.
\<close>

theorem processCommand_item_mismatch:
  assumes "syncPlayEnabledAt (manager s) = Some t"
    and "syncPlayReady (manager s)"
    and "playbackActive env"
    and "Some (PlaylistItemId c) \<noteq> currentPlaylistItemId env"
  shows "processCommand env (Some c) s =
     (if EmittedAt c < t
      then logLine Debug ''SyncPlay processCommand: ignoring old command'' s
      else logLine Warn ''SyncPlay processCommand: playlist item does not match!''
             (s\<lparr>manager := (manager s)\<lparr>lastPlaybackCommand := Some (parseCommand c)\<rparr>\<rparr>))"
  using assms by (simp add: processCommand_def Let_def parseCommand_def)

theorem processCommand_item_mismatch_witness:
  "syncPlayEnabledAt (manager readySyncPlay) = Some 0
   \<and> syncPlayReady (manager readySyncPlay)
   \<and> playbackActive exampleEnv
   \<and> Some (PlaylistItemId (exampleUnpause\<lparr>PlaylistItemId := ''B''\<rparr>))
        \<noteq> currentPlaylistItemId exampleEnv
   \<and> processCommand exampleEnv (Some (exampleUnpause\<lparr>PlaylistItemId := ''B''\<rparr>)) readySyncPlay =
       readySyncPlay
         \<lparr>manager := (manager readySyncPlay)
            \<lparr>lastPlaybackCommand := Some (exampleUnpause\<lparr>PlaylistItemId := ''B''\<rparr>)\<rparr>,
          console := [(Warn, ''SyncPlay processCommand: playlist item does not match!'')]\<rparr>"
proof -
  have e: "syncPlayEnabledAt (manager readySyncPlay) = Some 0"
    and r: "syncPlayReady (manager readySyncPlay)"
    by (simp_all add: readySyncPlay_eq)
  have a: "playbackActive exampleEnv"
    and m: "Some (PlaylistItemId (exampleUnpause\<lparr>PlaylistItemId := ''B''\<rparr>))
        \<noteq> currentPlaylistItemId exampleEnv"
    by (simp_all add: exampleEnv_def)
  show ?thesis
    using processCommand_item_mismatch [OF e r a m] e r a m
    by (simp add: readySyncPlay_eq exampleUnpause_def parseCommand_def logLine_def)
qed

text \<open>
  C1 as stated fails: the command is stored in \<open>lastPlaybackCommand\<close> before the
  playlist item is compared, so the field does not keep its previous value.
\<close>

theorem processCommand_item_mismatch_counterexample:
  "syncPlayEnabledAt (manager readySyncPlay) \<noteq> None
   \<and> syncPlayReady (manager readySyncPlay)
   \<and> playbackActive exampleEnv
   \<and> Some (PlaylistItemId (exampleUnpause\<lparr>PlaylistItemId := ''B''\<rparr>))
        \<noteq> currentPlaylistItemId exampleEnv
   \<and> lastPlaybackCommand (manager readySyncPlay) = None
   \<and> lastPlaybackCommand
        (manager (processCommand exampleEnv (Some (exampleUnpause\<lparr>PlaylistItemId := ''B''\<rparr>))
                    readySyncPlay))
       = Some (exampleUnpause\<lparr>PlaylistItemId := ''B''\<rparr>)"
  by (simp add: readySyncPlay_eq processCommand_def parseCommand_def exampleEnv_def
      exampleUnpause_def logLine_def Let_def)

text \<open>
  C7. Whenever \<open>processCommand\<close> goes as far as \<open>applyCommand\<close> (it writes the line
  "SyncPlay will ..." just before, and only there), the session is enabled and the
  command's \<open>EmittedAt\<close> is not earlier than \<open>syncPlayEnabledAt\<close>; and a command that
  passes every test does go there. A command that arrives while SyncPlay is disabled,
  or that was emitted before the enable time, is dropped with a debug line and no other
  change of state. The same holds after \<open>disableSyncPlay\<close> and a new \<open>enableSyncPlay\<close>,
  for the enable time of the new group.
\<close>

theorem processCommand_enabled_and_recent:
  "((Log, ''SyncPlay will'')
       \<in> set (drop (length (console s)) (console (processCommand env (Some c) s)))
     \<longrightarrow> (\<exists>t. syncPlayEnabledAt (manager s) = Some t \<and> t \<le> EmittedAt c))
   \<and> ((\<exists>t. syncPlayEnabledAt (manager s) = Some t \<and> t \<le> EmittedAt c)
        \<and> syncPlayReady (manager s) \<and> playbackActive env
        \<and> Some (PlaylistItemId c) = currentPlaylistItemId env
     \<longrightarrow> processCommand env (Some c) s =
           applyCommand env (parseCommand c)
             (logLine Log ''SyncPlay will''
                (s\<lparr>manager := (manager s)\<lparr>lastPlaybackCommand := Some (parseCommand c)\<rparr>\<rparr>)))
   \<and> (syncPlayEnabledAt (manager s) = None
     \<longrightarrow> processCommand env (Some c) s =
           logLine Debug ''SyncPlay processCommand: SyncPlay not enabled, ignoring command'' s)
   \<and> ((\<exists>t. syncPlayEnabledAt (manager s) = Some t \<and> EmittedAt c < t)
     \<longrightarrow> processCommand env (Some c) s =
           logLine Debug ''SyncPlay processCommand: ignoring old command'' s)
   \<and> (EmittedAt c < LastUpdatedAt info
     \<longrightarrow> processCommand env (Some c) (enableSyncPlay env' info (disableSyncPlay s)) =
           logLine Debug ''SyncPlay processCommand: ignoring old command''
             (enableSyncPlay env' info (disableSyncPlay s)))"
proof -
  have reached: "\<exists>t. syncPlayEnabledAt (manager s) = Some t \<and> t \<le> EmittedAt c"
    if mark: "(Log, ''SyncPlay will'')
       \<in> set (drop (length (console s)) (console (processCommand env (Some c) s)))"
  proof (cases "syncPlayEnabledAt (manager s)")
    case None
    with mark processCommand_not_enabled [of s env c] show ?thesis
      by (simp add: logLine_def)
  next
    case (Some t)
    show ?thesis
    proof (cases "EmittedAt c < t")
      case True
      with Some mark processCommand_old [of s t c env] show ?thesis
        by (simp add: logLine_def)
    next
      case False
      with Some show ?thesis by simp
    qed
  qed
  have passes: "processCommand env (Some c) s =
           applyCommand env (parseCommand c)
             (logLine Log ''SyncPlay will''
                (s\<lparr>manager := (manager s)\<lparr>lastPlaybackCommand := Some (parseCommand c)\<rparr>\<rparr>))"
    if "\<exists>t. syncPlayEnabledAt (manager s) = Some t \<and> t \<le> EmittedAt c"
      and "syncPlayReady (manager s)" and "playbackActive env"
      and "Some (PlaylistItemId c) = currentPlaylistItemId env"
    using that by (auto simp add: processCommand_def Let_def parseCommand_def)
  have again: "processCommand env (Some c) (enableSyncPlay env' info (disableSyncPlay s)) =
           logLine Debug ''SyncPlay processCommand: ignoring old command''
             (enableSyncPlay env' info (disableSyncPlay s))"
    if "EmittedAt c < LastUpdatedAt info"
    using processCommand_old [OF syncPlayEnabledAt_enableSyncPlay that] .
  show ?thesis
    using reached passes again processCommand_not_enabled [of s env c]
      processCommand_old [of s _ c env]
    by blast
qed

theorem processCommand_enabled_and_recent_witness:
  "(Log, ''SyncPlay will'')
       \<in> set (drop (length (console readySyncPlay))
                 (console (processCommand exampleEnv (Some exampleUnpause) readySyncPlay)))
   \<and> syncPlayEnabledAt (manager readySyncPlay) = Some 0 \<and> 0 \<le> EmittedAt exampleUnpause
   \<and> syncPlayReady (manager readySyncPlay) \<and> playbackActive exampleEnv
   \<and> Some (PlaylistItemId exampleUnpause) = currentPlaylistItemId exampleEnv
   \<and> syncPlayEnabledAt (manager (newSyncPlay exampleSettings 0)) = None
   \<and> console (processCommand exampleEnv (Some exampleUnpause) (newSyncPlay exampleSettings 0))
       = [(Debug, ''SyncPlay processCommand: SyncPlay not enabled, ignoring command'')]
   \<and> EmittedAt (exampleUnpause\<lparr>EmittedAt := - 1\<rparr>) < 0
   \<and> processCommand exampleEnv (Some (exampleUnpause\<lparr>EmittedAt := - 1\<rparr>)) readySyncPlay
       = readySyncPlay\<lparr>console := [(Debug, ''SyncPlay processCommand: ignoring old command'')]\<rparr>
   \<and> EmittedAt exampleUnpause < LastUpdatedAt (exampleGroup\<lparr>LastUpdatedAt := 2000\<rparr>)
   \<and> processCommand exampleEnv (Some exampleUnpause)
         (enableSyncPlay exampleEnv (exampleGroup\<lparr>LastUpdatedAt := 2000\<rparr>)
            (disableSyncPlay scheduledSyncPlay))
       = logLine Debug ''SyncPlay processCommand: ignoring old command''
          (enableSyncPlay exampleEnv (exampleGroup\<lparr>LastUpdatedAt := 2000\<rparr>)
            (disableSyncPlay scheduledSyncPlay))"
proof -
  have mark: "(Log, ''SyncPlay will'')
       \<in> set (drop (length (console readySyncPlay))
                 (console (processCommand exampleEnv (Some exampleUnpause) readySyncPlay)))"
    using scheduledSyncPlay_eq by (simp add: scheduledSyncPlay_def readySyncPlay_eq)
  have en: "syncPlayEnabledAt (manager readySyncPlay) = Some 0"
    and rd: "syncPlayReady (manager readySyncPlay)"
    and dis: "syncPlayEnabledAt (manager (newSyncPlay exampleSettings 0)) = None"
    by (simp_all add: readySyncPlay_eq newSyncPlay_def newManager_def)
  have em: "0 \<le> EmittedAt exampleUnpause" "playbackActive exampleEnv"
    "Some (PlaylistItemId exampleUnpause) = currentPlaylistItemId exampleEnv"
    "EmittedAt (exampleUnpause\<lparr>EmittedAt := - 1\<rparr>) < 0"
    "EmittedAt exampleUnpause < LastUpdatedAt (exampleGroup\<lparr>LastUpdatedAt := 2000\<rparr>)"
    by (simp_all add: exampleUnpause_def exampleEnv_def)
  note inst1 = processCommand_enabled_and_recent
    [of readySyncPlay exampleEnv exampleUnpause "exampleGroup\<lparr>LastUpdatedAt := 2000\<rparr>" exampleEnv]
  note inst2 = processCommand_enabled_and_recent
    [of "newSyncPlay exampleSettings 0" exampleEnv exampleUnpause exampleGroup exampleEnv]
  note inst3 = processCommand_enabled_and_recent
    [of readySyncPlay exampleEnv "exampleUnpause\<lparr>EmittedAt := - 1\<rparr>" exampleGroup exampleEnv]
  note inst4 = processCommand_enabled_and_recent
    [of scheduledSyncPlay exampleEnv exampleUnpause "exampleGroup\<lparr>LastUpdatedAt := 2000\<rparr>" exampleEnv]
  have two: "console (processCommand exampleEnv (Some exampleUnpause) (newSyncPlay exampleSettings 0))
       = [(Debug, ''SyncPlay processCommand: SyncPlay not enabled, ignoring command'')]"
    using inst2 dis by (simp add: logLine_def newSyncPlay_def)
  have three: "processCommand exampleEnv (Some (exampleUnpause\<lparr>EmittedAt := - 1\<rparr>)) readySyncPlay
       = readySyncPlay\<lparr>console := [(Debug, ''SyncPlay processCommand: ignoring old command'')]\<rparr>"
    using inst3 en em(4) by (simp add: logLine_def readySyncPlay_eq)
  have four: "processCommand exampleEnv (Some exampleUnpause)
         (enableSyncPlay exampleEnv (exampleGroup\<lparr>LastUpdatedAt := 2000\<rparr>)
            (disableSyncPlay scheduledSyncPlay))
       = logLine Debug ''SyncPlay processCommand: ignoring old command''
          (enableSyncPlay exampleEnv (exampleGroup\<lparr>LastUpdatedAt := 2000\<rparr>)
            (disableSyncPlay scheduledSyncPlay))"
    using inst4 em(5) by blast
  from inst1 mark have "\<exists>t. syncPlayEnabledAt (manager readySyncPlay) = Some t
      \<and> t \<le> EmittedAt exampleUnpause"
    by blast
  then show ?thesis
    using mark en rd dis em two three four by simp
qed

section \<open>Drift correction\<close>

lemmas event_defs = fireTimer_def runCallback_def resolveWaiters_def resolveWaiter_def
  bindToPlayer_def releaseCurrentPlayer_def onPlayerChange_def enableSyncPlay_def
  disableSyncPlay_def processCommand_def parseCommand_def applyCommand_def isDuplicate_def
  scheduleUnpause_def onTimeUpdate_def

lemmas example_defs = newSyncPlay_def newManager_def newPlaybackCore_def loadPreferences_def
  getFloat_def exampleSettings_def exampleEnv_def exampleGroup_def exampleUnpause_def
  examplePlayer_def

lemma playingSyncPlay_eq:
  "playingSyncPlay =
     \<lparr>manager =
        \<lparr>syncMethod = NoSync, groupInfo = Some exampleGroup, syncPlayEnabledAt = Some 0,
         syncPlayReady = True, queuedCommand = None, followingGroupPlayback = True,
         lastPlaybackCommand = Some exampleUnpause, hasPlayerWrapper = True,
         pmSyncPlayEnabled = True\<rparr>,
      playbackCore = (newPlaybackCore exampleSettings 0)
        \<lparr>playbackRateSupported := True, syncEnabled := True, hasCurrentPlayer := True,
         lastCommand := Some exampleUnpause, scheduledCommandTimeout := Some 1,
         syncTimeout := Some 2\<rparr>,
      playbackManager = newPlaybackManager
        \<lparr>pm_playPause := RequestOverride, pm_unpause := RequestOverride,
         pm_pause := RequestOverride, pm_seek := RequestOverride,
         pm_sendCommand := RequestOverride\<rparr>,
      timers = [], nextTimer = 3, waiters = [],
      calls = [Trigger ''playerchange'', Trigger ''playerchange'', WrapperBindToPlayer,
               Trigger ''enabled'', TimeSyncForceUpdate, SetPlaybackRate (Some 1),
               Trigger ''syncing'', RequestSyncPlayUnpause, Trigger ''notify-osd''],
      console = [(Log, ''SyncPlay will'')], uncaught = []\<rparr>"
  by (simp add: playingSyncPlay_def event_defs example_defs inject_defs basic_defs number_defs
      Let_def)

lemma roundDouble_values:
  "roundDouble 59 = 59" "roundDouble 60 = 60" "roundDouble 3000 = 3000" "roundDouble 400 = 400"
  "roundDouble 300 = 300" "roundDouble (- 500) = - 500"
  by code_simp+







lemma speedToSyncTimeFor_60: "speedToSyncTimeFor 1000 60 = 1000"
  unfolding speedToSyncTimeFor_def MinSpeed_def by code_simp

lemma speedFor_1000_60: "speedFor 1000 60 = Some (2386907802506363 / 2251799813685248)"
  unfolding speedFor_def by code_simp


section \<open>The rate of SpeedToSync\<close>

text \<open>Rounding to the nearest double changes a number by at most the fraction
  \<open>2\<^sup>-\<^sup>5\<^sup>3\<close> of its magnitude.\<close>

lemma exponentOf_le:
  assumes "x \<noteq> 0"
  shows "power_int 2 (exponentOf x) \<le> \<bar>x\<bar>"
proof -
  obtain p q where pq: "quotient_of \<bar>x\<bar> = (p, q)" by (cases "quotient_of \<bar>x\<bar>")
  then have q: "0 < q" and x: "\<bar>x\<bar> = of_int p / of_int q"
    using quotient_of_denom_pos quotient_of_div by blast+
  have "0 < \<bar>x\<bar>" using assms by simp
  with x q have p: "0 < p" by (simp add: zero_less_divide_iff)
  let ?k = "bitlen p - bitlen q"
  show ?thesis
  proof (cases "power_int 2 ?k \<le> \<bar>x\<bar>")
    case True
    with pq show ?thesis by (simp add: exponentOf_def)
  next
    case False
    have bp: "1 \<le> bitlen p" and bq: "1 \<le> bitlen q"
      using p q by (simp_all add: bitlen_alt_def)
    from bitlen_bounds [OF p] have "(2::int) ^ nat (bitlen p - 1) \<le> p" by simp
    then have lo: "(2::rat) ^ nat (bitlen p - 1) \<le> of_int p"
      by (metis of_int_le_iff of_int_numeral of_int_power)
    from bitlen_bounds [OF q] have "q \<le> (2::int) ^ nat (bitlen q)" by simp
    then have hi: "of_int q \<le> (2::rat) ^ nat (bitlen q)"
      by (metis of_int_le_iff of_int_numeral of_int_power)
    have "power_int (2::rat) (?k - 1) = power_int 2 (bitlen p - 1) / power_int 2 (bitlen q)"
      using power_int_diff [of "2::rat" "bitlen p - 1" "bitlen q"] by (simp add: algebra_simps)
    also have "\<dots> = 2 ^ nat (bitlen p - 1) / 2 ^ nat (bitlen q)"
      using bp bq by (simp add: power_int_def)
    also have "\<dots> \<le> of_int p / of_int q"
      using lo hi q p by (intro frac_le) simp_all
    finally have "power_int 2 (?k - 1) \<le> \<bar>x\<bar>" using x by simp
    with False pq show ?thesis by (simp add: exponentOf_def)
  qed
qed

lemma roundHalfEven_error: "\<bar>of_int (roundHalfEven m) - m\<bar> \<le> 1 / 2"
proof -
  have "of_int \<lfloor>m\<rfloor> \<le> m" "m < of_int \<lfloor>m\<rfloor> + 1" by linarith+
  then show ?thesis by (auto simp add: roundHalfEven_def Let_def)
qed

lemma roundDouble_error: "\<bar>roundDouble x - x\<bar> \<le> \<bar>x\<bar> / 2 ^ 53"
proof (cases "x = 0")
  case True
  then show ?thesis by (simp add: roundDouble_def)
next
  case False
  let ?e = "exponentOf x"
  let ?u = "power_int (2::rat) (?e - 52)"
  have u: "0 < ?u" by (simp add: zero_less_power_int)
  have "roundDouble x - x = (of_int (roundHalfEven (x / ?u)) - x / ?u) * ?u"
    using False u by (simp add: roundDouble_def Let_def algebra_simps)
  then have "\<bar>roundDouble x - x\<bar> = \<bar>of_int (roundHalfEven (x / ?u)) - x / ?u\<bar> * ?u"
    using u by (simp add: abs_mult)
  also have "\<dots> \<le> (1 / 2) * ?u"
    using roundHalfEven_error [of "x / ?u"] u by (intro mult_right_mono) simp_all
  also have "(1 / 2) * ?u = power_int 2 ?e / 2 ^ 53"
    using power_int_diff [of "2::rat" ?e 52] by simp
  also have "\<dots> \<le> \<bar>x\<bar> / 2 ^ 53"
    using exponentOf_le [OF False] by (simp add: divide_right_mono)
  finally show ?thesis .
qed

lemma roundDouble_bounds:
  "x - \<bar>x\<bar> / 2 ^ 53 \<le> roundDouble x" "roundDouble x \<le> x + \<bar>x\<bar> / 2 ^ 53"
  using roundDouble_error [of x] by linarith+

lemma roundDouble_pos:
  assumes "0 \<le> x"
  shows "x * (1 - 1 / 2 ^ 53) \<le> roundDouble x"
proof -
  have "x * (1 - 1 / 2 ^ 53) = x - \<bar>x\<bar> / 2 ^ 53"
    using assms by (simp add: algebra_simps)
  then show ?thesis using roundDouble_bounds(1) [of x] by simp
qed

lemma roundDouble_neg:
  assumes "x \<le> 0"
  shows "x * (1 + 1 / 2 ^ 53) \<le> roundDouble x" and "roundDouble x \<le> x * (1 - 1 / 2 ^ 53)"
proof -
  have "x * (1 + 1 / 2 ^ 53) = x - \<bar>x\<bar> / 2 ^ 53" "x * (1 - 1 / 2 ^ 53) = x + \<bar>x\<bar> / 2 ^ 53"
    using assms by (simp_all add: algebra_simps)
  then show "x * (1 + 1 / 2 ^ 53) \<le> roundDouble x" "roundDouble x \<le> x * (1 - 1 / 2 ^ 53)"
    using roundDouble_bounds [of x] by simp_all
qed

lemma MinSpeed_eq: "MinSpeed = 3602879701896397 / 36028797018963968"
  unfolding MinSpeed_def by code_simp

lemma roundDouble_one_minus_MinSpeed:
  "roundDouble (1 - MinSpeed) = 8106479329266893 / 9007199254740992"
  unfolding MinSpeed_eq by code_simp

text \<open>With a positive duration, the expanded duration is positive too, and the rate is
  at least \<open>0.1 - 2\<^sup>-\<^sup>5\<^sup>1\<close>.\<close>

lemma speedFor_bound:
  fixes d T :: rat
  assumes T: "0 < T"
  shows "speedToSyncTimeFor T d \<noteq> 0
       \<and> 1 / 10 - 1 / 2 ^ 51 \<le> roundDouble (1 + roundDouble (d / speedToSyncTimeFor T d))"
proof (cases "d \<le> roundDouble (- T * MinSpeed)")
  case True
  let ?c = "8106479329266893 / 9007199254740992 :: rat"
  let ?T' = "roundDouble (\<bar>d\<bar> / ?c)"
  have T': "speedToSyncTimeFor T d = ?T'"
    using True by (simp add: speedToSyncTimeFor_def roundDouble_one_minus_MinSpeed)
  have "- T * MinSpeed \<le> 0" using T by (simp add: MinSpeed_eq)
  from roundDouble_neg(2) [OF this] have "roundDouble (- T * MinSpeed) \<le> - T * MinSpeed * (1 - 1 / 2 ^ 53)" .
  also have "\<dots> < 0" using T by (simp add: MinSpeed_eq)
  finally have d: "d < 0" using True by simp
  have "0 \<le> \<bar>d\<bar> / ?c" by simp
  from roundDouble_pos [OF this] have lo: "\<bar>d\<bar> / ?c * (1 - 1 / 2 ^ 53) \<le> ?T'" .
  have "0 < \<bar>d\<bar> / ?c * (1 - 1 / 2 ^ 53)" using d by simp
  with lo have pos: "0 < ?T'" by linarith
  define y where "y = d / ?T'"
  have yT: "y * ?T' = d" using pos by (simp add: y_def)
  have "y * ?T' < 0 * ?T'" using yT d by simp
  then have yneg: "y < 0" using pos by (simp only: mult_less_cancel_right_pos)
  have "- y * (1 - 1 / 2 ^ 53) / ?c * ?T' = \<bar>d\<bar> / ?c * (1 - 1 / 2 ^ 53)"
    using yT d by (simp add: algebra_simps)
  with lo have "- y * (1 - 1 / 2 ^ 53) / ?c * ?T' \<le> 1 * ?T'" by simp
  then have ylo: "- y * (1 - 1 / 2 ^ 53) / ?c \<le> 1"
    using pos by (simp only: mult_le_cancel_right_pos)
  have q: "y * (1 + 1 / 2 ^ 53) \<le> roundDouble y"
    using roundDouble_neg(1) [of y] yneg by simp
  have z: "0 \<le> 1 + roundDouble y" using q ylo by simp
  from roundDouble_pos [OF z] have "(1 + roundDouble y) * (1 - 1 / 2 ^ 53) \<le> roundDouble (1 + roundDouble y)" .
  moreover have "1 / 10 - 1 / 2 ^ 51 \<le> (1 + roundDouble y) * (1 - 1 / 2 ^ 53)"
    using q ylo by simp
  ultimately have "1 / 10 - 1 / 2 ^ 51 \<le> roundDouble (1 + roundDouble y)" by linarith
  with T' pos show ?thesis by (simp add: y_def)
next
  case False
  have T': "speedToSyncTimeFor T d = T"
    using False by (simp add: speedToSyncTimeFor_def)
  have "- T * MinSpeed \<le> 0" using T by (simp add: MinSpeed_eq)
  from roundDouble_neg(1) [OF this] False have d: "- T * MinSpeed * (1 + 1 / 2 ^ 53) < d" by simp
  define y where "y = d / T"
  have yT: "y * T = d" using T by (simp add: y_def)
  have "(- MinSpeed * (1 + 1 / 2 ^ 53)) * T < y * T" using d yT by (simp add: algebra_simps)
  then have ylo: "- MinSpeed * (1 + 1 / 2 ^ 53) < y"
    using T by (simp only: mult_less_cancel_right_pos)
  have q: "- MinSpeed * (1 + 1 / 2 ^ 53) * (1 + 1 / 2 ^ 53) \<le> roundDouble y"
  proof (cases "0 \<le> y")
    case True
    from roundDouble_pos [OF True] True have "0 \<le> roundDouble y" by simp
    then show ?thesis by (simp add: MinSpeed_eq)
  next
    case False
    then have "y \<le> 0" by simp
    from roundDouble_neg(1) [OF this] ylo show ?thesis by (simp add: MinSpeed_eq)
  qed
  have z: "0 \<le> 1 + roundDouble y" using q by (simp add: MinSpeed_eq)
  from roundDouble_pos [OF z] have "(1 + roundDouble y) * (1 - 1 / 2 ^ 53) \<le> roundDouble (1 + roundDouble y)" .
  moreover have "1 / 10 - 1 / 2 ^ 51 \<le> (1 + roundDouble y) * (1 - 1 / 2 ^ 53)"
    using q by (simp add: MinSpeed_eq)
  ultimately have "1 / 10 - 1 / 2 ^ 51 \<le> roundDouble (1 + roundDouble y)" by linarith
  with T' T show ?thesis by (simp add: y_def)
qed

lemma speedFor_ahead:
  "speedFor (speedToSyncTimeFor 1000 (- 500)) (- 500) = Some (900719925474099 / 9007199254740992)"
  unfolding speedFor_def speedToSyncTimeFor_def MinSpeed_def by code_simp

lemma speedFor_behind:
  "speedFor (speedToSyncTimeFor 1000 300) 300 = Some (5854679515581645 / 4503599627370496)"
  unfolding speedFor_def speedToSyncTimeFor_def MinSpeed_def by code_simp

lemma speedFor_negative_duration:
  "speedFor (speedToSyncTimeFor (- 1000) 2000) 2000 = Some (- 1)"
  unfolding speedFor_def speedToSyncTimeFor_def MinSpeed_def by code_simp

lemma calls_speedToSync:
  assumes "playbackActive env"
    and "lastCommand (playbackCore s) = Some lastCmd" and "Command lastCmd = Unpause"
    and "\<not> isBuffering env s"
    and throttle: "maxDelaySpeedToSync (playbackCore s) / 2
                     \<le> of_int (now env - lastSyncTime (playbackCore s))"
    and "syncEnabled (playbackCore s)" and "enableSyncCorrection (playbackCore s)"
    and "playbackRateSupported (playbackCore s)" and "hasCurrentPlayer (playbackCore s)"
    and "useSpeedToSync (playbackCore s)"
    and "minDelaySpeedToSync (playbackCore s) \<le> \<bar>diffMillisOf env lastCmd\<bar>"
    and "\<bar>diffMillisOf env lastCmd\<bar> < maxDelaySpeedToSync (playbackCore s)"
  shows "calls (syncPlaybackTime env s) =
      calls s @ [SetPlaybackRate
                   (speedFor (speedToSyncTimeFor (speedToSyncDuration (playbackCore s))
                                (diffMillisOf env lastCmd))
                      (diffMillisOf env lastCmd)),
                 Trigger ''syncing'']"
proof -
  have "\<not> of_int (now env - lastSyncTime (playbackCore s))
            < maxDelaySpeedToSync (playbackCore s) / 2"
    using throttle by simp
  with assms show ?thesis
    by (simp add: syncPlaybackTime_def speedToSync_def Let_def logLine_def call_def
        setTimeout_def showSyncIcon_def split: option.splits)
qed

text \<open>
  C9 as stated fails: the rate is computed in doubles, and the rounded rate can fall
  below 0.1. With the default duration of 1000 ms and the client 500 ms ahead, the
  duration is expanded to the double nearest to \<open>500 / 0.9\<close>, and the rate handed to
  \<open>setPlaybackRate\<close> is 0.09999999999999998 (exactly
  \<open>900719925474099 / 9007199254740992\<close>). With a negative duration setting the rate is
  not bounded at all: a duration of -1000 ms and a difference of 2000 ms give -1.
\<close>

theorem syncPlaybackTime_speed_counterexample:
  "minDelaySpeedToSync (playbackCore playingSyncPlay)
      \<le> \<bar>diffMillisOf (driftEnv (- 500)) exampleUnpause\<bar>
   \<and> \<bar>diffMillisOf (driftEnv (- 500)) exampleUnpause\<bar>
      < maxDelaySpeedToSync (playbackCore playingSyncPlay)
   \<and> speedToSyncDuration (playbackCore playingSyncPlay) = 1000
   \<and> calls (syncPlaybackTime (driftEnv (- 500)) playingSyncPlay) =
        calls playingSyncPlay
          @ [SetPlaybackRate (Some (900719925474099 / 9007199254740992)), Trigger ''syncing'']
   \<and> (900719925474099 / 9007199254740992 :: rat) < 1 / 10
   \<and> speedFor (speedToSyncTimeFor (- 1000) 2000) 2000 = Some (- 1)"
proof -
  note defs = playingSyncPlay_eq newPlaybackCore_def loadPreferences_def getFloat_def
    exampleSettings_def exampleEnv_def exampleUnpause_def driftEnv_def
    number_defs diffMillisOf_def roundDouble_values isBuffering_def
  have d: "diffMillisOf (driftEnv (- 500)) exampleUnpause = - 500"
    by (simp add: defs)
  have "calls (syncPlaybackTime (driftEnv (- 500)) playingSyncPlay) =
        calls playingSyncPlay
          @ [SetPlaybackRate (Some (900719925474099 / 9007199254740992)), Trigger ''syncing'']"
    using calls_speedToSync [of "driftEnv (- 500)" playingSyncPlay exampleUnpause] d
      speedFor_ahead
    by (simp add: defs)
  then show ?thesis using d speedFor_negative_duration by (simp add: defs)
qed

text \<open>
  C9, amended. In the SpeedToSync branch, with \<open>T = speedToSyncDuration\<close> positive, the
  playback rate handed to \<open>setPlaybackRate\<close> is \<open>1 + diff / T\<close> computed in doubles,
  except that for \<open>diff \<le> - T * 0.1\<close> the duration is first expanded to
  \<open>|diff| / (1 - 0.1)\<close>, in doubles as well; for every difference with
  \<open>minDelaySpeedToSync \<le> |diff| < maxDelaySpeedToSync\<close> the rate is at least
  \<open>0.1 - 2\<^sup>-\<^sup>5\<^sup>1\<close>. The duration and the difference are taken between
  \<open>2\<^sup>-\<^sup>5\<^sup>0\<^sup>0\<close> and \<open>2\<^sup>5\<^sup>0\<^sup>0\<close> ms, where no operation of the computation leaves the
  range of the normal doubles.
\<close>

theorem syncPlaybackTime_rate:
  assumes "playbackActive env"
    and "lastCommand (playbackCore s) = Some lastCmd" and "Command lastCmd = Unpause"
    and "\<not> isBuffering env s"
    and throttle: "maxDelaySpeedToSync (playbackCore s) / 2
                     \<le> of_int (now env - lastSyncTime (playbackCore s))"
    and "syncEnabled (playbackCore s)" and "enableSyncCorrection (playbackCore s)"
    and "playbackRateSupported (playbackCore s)" and "hasCurrentPlayer (playbackCore s)"
    and "useSpeedToSync (playbackCore s)"
    and "minDelaySpeedToSync (playbackCore s) \<le> \<bar>diffMillisOf env lastCmd\<bar>"
    and "\<bar>diffMillisOf env lastCmd\<bar> < maxDelaySpeedToSync (playbackCore s)"
    and duration: "1 / 2 ^ 500 \<le> speedToSyncDuration (playbackCore s)"
      "speedToSyncDuration (playbackCore s) \<le> 2 ^ 500"
    and difference: "1 / 2 ^ 500 \<le> \<bar>diffMillisOf env lastCmd\<bar>"
      "\<bar>diffMillisOf env lastCmd\<bar> \<le> 2 ^ 500"
  shows "(let diff = diffMillisOf env lastCmd;
              T = speedToSyncDuration (playbackCore s);
              T' = (if diff \<le> roundDouble (- T * roundDouble (1 / 10))
                    then roundDouble (\<bar>diff\<bar> / roundDouble (1 - roundDouble (1 / 10)))
                    else T);
              rate = roundDouble (1 + roundDouble (diff / T'))
          in calls (syncPlaybackTime env s)
               = calls s @ [SetPlaybackRate (Some rate), Trigger ''syncing'']
             \<and> 1 / 10 - 1 / 2 ^ 51 \<le> rate)"
proof -
  let ?d = "diffMillisOf env lastCmd"
  let ?T = "speedToSyncDuration (playbackCore s)"
  have "(0::rat) < 1 / 2 ^ 500" by simp
  then have positive: "0 < ?T" using duration(1) by (rule less_le_trans)
  have T': "speedToSyncTimeFor ?T ?d =
      (if ?d \<le> roundDouble (- ?T * roundDouble (1 / 10))
       then roundDouble (\<bar>?d\<bar> / roundDouble (1 - roundDouble (1 / 10)))
       else ?T)"
    by (simp add: speedToSyncTimeFor_def MinSpeed_def)
  from speedFor_bound [OF positive, of ?d]
  have nz: "speedToSyncTimeFor ?T ?d \<noteq> 0"
    and bound: "1 / 10 - 1 / 2 ^ 51 \<le> roundDouble (1 + roundDouble (?d / speedToSyncTimeFor ?T ?d))"
    by simp_all
  have "speedFor (speedToSyncTimeFor ?T ?d) ?d =
      Some (roundDouble (1 + roundDouble (?d / speedToSyncTimeFor ?T ?d)))"
    using nz by (simp add: speedFor_def)
  with calls_speedToSync [OF assms(1-12)]
  have "calls (syncPlaybackTime env s) =
      calls s @ [SetPlaybackRate (Some (roundDouble (1 + roundDouble (?d / speedToSyncTimeFor ?T ?d)))),
                 Trigger ''syncing'']"
    by simp
  with bound show ?thesis unfolding Let_def T' [symmetric] by simp
qed

theorem syncPlaybackTime_rate_witness:
  "speedToSyncDuration (playbackCore playingSyncPlay) = 1000
   \<and> diffMillisOf (driftEnv 300) exampleUnpause = 300
   \<and> calls (syncPlaybackTime (driftEnv 300) playingSyncPlay)
        = calls playingSyncPlay
            @ [SetPlaybackRate (Some (5854679515581645 / 4503599627370496)), Trigger ''syncing'']
   \<and> diffMillisOf (driftEnv (- 500)) exampleUnpause = - 500
   \<and> calls (syncPlaybackTime (driftEnv (- 500)) playingSyncPlay)
        = calls playingSyncPlay
            @ [SetPlaybackRate (Some (900719925474099 / 9007199254740992)), Trigger ''syncing'']
   \<and> (1 / 10 - 1 / 2 ^ 51 :: rat) \<le> 900719925474099 / 9007199254740992"
proof -
  note defs = playingSyncPlay_eq newPlaybackCore_def loadPreferences_def getFloat_def
    exampleSettings_def exampleEnv_def exampleUnpause_def driftEnv_def
    number_defs diffMillisOf_def roundDouble_values isBuffering_def
  have d: "diffMillisOf (driftEnv 300) exampleUnpause = 300"
    "diffMillisOf (driftEnv (- 500)) exampleUnpause = - 500"
    "speedToSyncDuration (playbackCore playingSyncPlay) = 1000"
    by (simp_all add: defs)
  have r1: "roundDouble (1 + roundDouble (300 / (if (300::rat) \<le> roundDouble (- 1000 * roundDouble (1 / 10))
                    then roundDouble (\<bar>300\<bar> / roundDouble (1 - roundDouble (1 / 10)))
                    else 1000))) = 5854679515581645 / 4503599627370496"
    using speedFor_behind by (simp add: speedFor_def speedToSyncTimeFor_def MinSpeed_def split: if_splits)
  have r2: "roundDouble (1 + roundDouble (- 500 / (if (- 500::rat) \<le> roundDouble (- 1000 * roundDouble (1 / 10))
                    then roundDouble (\<bar>- 500\<bar> / roundDouble (1 - roundDouble (1 / 10)))
                    else 1000))) = 900719925474099 / 9007199254740992"
    using speedFor_ahead by (simp add: speedFor_def speedToSyncTimeFor_def MinSpeed_def split: if_splits)
  have one: "calls (syncPlaybackTime (driftEnv 300) playingSyncPlay)
        = calls playingSyncPlay
            @ [SetPlaybackRate (Some (5854679515581645 / 4503599627370496)), Trigger ''syncing'']"
    using syncPlaybackTime_rate [of "driftEnv 300" playingSyncPlay exampleUnpause] d(1) r1
    by (simp add: defs Let_def)
  have two: "calls (syncPlaybackTime (driftEnv (- 500)) playingSyncPlay)
        = calls playingSyncPlay
            @ [SetPlaybackRate (Some (900719925474099 / 9007199254740992)), Trigger ''syncing'']
      \<and> (1 / 10 - 1 / 2 ^ 51 :: rat) \<le> 900719925474099 / 9007199254740992"
    using syncPlaybackTime_rate [of "driftEnv (- 500)" playingSyncPlay exampleUnpause] d(2) r2
    by (simp add: defs Let_def)
  show ?thesis using d one two by simp
qed

section \<open>Disabling SyncPlay\<close>

lemma disableSyncPlay_keeps:
  "timers (disableSyncPlay s) = timers s"
  "waiters (disableSyncPlay s) = waiters s"
  "groupInfo (manager (disableSyncPlay s)) = groupInfo (manager s)"
  "lastCommand (playbackCore (disableSyncPlay s)) = lastCommand (playbackCore s)"
  by (simp_all add: disableSyncPlay_def inject_defs call_def Let_def)

lemma speedingSyncPlay_eq:
  "speedingSyncPlay =
     playingSyncPlay
       \<lparr>manager := (manager playingSyncPlay)
          \<lparr>syncMethod := SpeedToSync (Some (2386907802506363 / 2251799813685248))\<rparr>,
        playbackCore := (playbackCore playingSyncPlay)
          \<lparr>lastSyncTime := 6000, playbackDiffMillis := 60, syncEnabled := False,
           syncAttempts := 1, syncTimeout := Some 3\<rparr>,
        timers := [(3, 1000, CbSpeedToSyncEnd)], nextTimer := 4,
        calls := calls playingSyncPlay
          @ [SetPlaybackRate (Some (2386907802506363 / 2251799813685248)), Trigger ''syncing'',
             Trigger ''timeupdate''],
        console := [(Log, ''SyncPlay will''), (Log, ''SyncPlay SpeedToSync'')]\<rparr>"
  by (simp add: speedingSyncPlay_def playingSyncPlay_eq onTimeUpdate_def syncPlaybackTime_def
      speedToSync_def diffMillisOf_def roundDouble_values number_defs speedFor_1000_60 speedToSyncTimeFor_60
      isBuffering_def
      newPlaybackCore_def loadPreferences_def getFloat_def exampleSettings_def driftEnv_def
      exampleEnv_def exampleUnpause_def basic_defs Let_def)

text \<open>
  C2. \<open>disableSyncPlay\<close> resets the manager's session fields and
  \<open>playbackCore.syncEnabled\<close>, but it cancels no timer and no pending wait, and it keeps
  \<open>groupInfo\<close> and the playback core's \<open>lastCommand\<close>. A closure armed before the
  group is left still runs afterwards. The scheduled \<open>Unpause\<close> fires and calls
  \<open>localUnpause\<close>; with the overrides taken off \<open>playbackManager\<close> again that call
  ends in a \<open>TypeError\<close>, and nothing leaves the core. The timer that ends SpeedToSync
  fires as well: it calls \<open>setPlaybackRate(1)\<close> on the current player and switches
  \<open>syncEnabled\<close> back on.
\<close>

theorem disableSyncPlay_pending_timer:
  "timers (disableSyncPlay s) = timers s
   \<and> waiters (disableSyncPlay s) = waiters s
   \<and> groupInfo (manager (disableSyncPlay s)) = groupInfo (manager s)
   \<and> lastCommand (playbackCore (disableSyncPlay s)) = lastCommand (playbackCore s)
   \<and> timers (disableSyncPlay scheduledSyncPlay) = [(1, 1000, CbUnpause 1500)]
   \<and> groupInfo (manager (disableSyncPlay scheduledSyncPlay)) = Some exampleGroup
   \<and> lastCommand (playbackCore (disableSyncPlay scheduledSyncPlay)) = Some exampleUnpause
   \<and> syncPlayEnabledAt (manager (disableSyncPlay scheduledSyncPlay)) = None
   \<and> uncaught (fireTimer (exampleEnv\<lparr>now := 2000\<rparr>) 1 (disableSyncPlay scheduledSyncPlay))
       = [TypeError]
   \<and> calls (fireTimer (exampleEnv\<lparr>now := 2000\<rparr>) 1 (disableSyncPlay scheduledSyncPlay))
       = calls (disableSyncPlay scheduledSyncPlay)
   \<and> timers (disableSyncPlay speedingSyncPlay) = [(3, 1000, CbSpeedToSyncEnd)]
   \<and> syncPlayEnabledAt (manager (disableSyncPlay speedingSyncPlay)) = None
   \<and> \<not> syncEnabled (playbackCore (disableSyncPlay speedingSyncPlay))
   \<and> calls (fireTimer (exampleEnv\<lparr>now := 7000\<rparr>) 3 (disableSyncPlay speedingSyncPlay))
       = calls (disableSyncPlay speedingSyncPlay) @ [SetPlaybackRate (Some 1), Trigger ''syncing'']
   \<and> syncEnabled (playbackCore
         (fireTimer (exampleEnv\<lparr>now := 7000\<rparr>) 3 (disableSyncPlay speedingSyncPlay)))"
proof -
  have a: "timers (disableSyncPlay scheduledSyncPlay) = [(1, 1000, CbUnpause 1500)]
   \<and> groupInfo (manager (disableSyncPlay scheduledSyncPlay)) = Some exampleGroup
   \<and> lastCommand (playbackCore (disableSyncPlay scheduledSyncPlay)) = Some exampleUnpause
   \<and> syncPlayEnabledAt (manager (disableSyncPlay scheduledSyncPlay)) = None
   \<and> uncaught (fireTimer (exampleEnv\<lparr>now := 2000\<rparr>) 1 (disableSyncPlay scheduledSyncPlay))
       = [TypeError]
   \<and> calls (fireTimer (exampleEnv\<lparr>now := 2000\<rparr>) 1 (disableSyncPlay scheduledSyncPlay))
       = calls (disableSyncPlay scheduledSyncPlay)"
    by (simp add: scheduledSyncPlay_eq disableSyncPlay_def inject_defs fireTimer_def
        runCallback_def basic_defs exampleEnv_def Let_def)
  have b: "timers (disableSyncPlay speedingSyncPlay) = [(3, 1000, CbSpeedToSyncEnd)]
   \<and> syncPlayEnabledAt (manager (disableSyncPlay speedingSyncPlay)) = None
   \<and> \<not> syncEnabled (playbackCore (disableSyncPlay speedingSyncPlay))
   \<and> calls (fireTimer (exampleEnv\<lparr>now := 7000\<rparr>) 3 (disableSyncPlay speedingSyncPlay))
       = calls (disableSyncPlay speedingSyncPlay) @ [SetPlaybackRate (Some 1), Trigger ''syncing'']
   \<and> syncEnabled (playbackCore
         (fireTimer (exampleEnv\<lparr>now := 7000\<rparr>) 3 (disableSyncPlay speedingSyncPlay)))"
    by (simp add: speedingSyncPlay_eq playingSyncPlay_eq disableSyncPlay_def inject_defs
        fireTimer_def runCallback_def basic_defs exampleEnv_def Let_def)
  from a b show ?thesis by (simp only: disableSyncPlay_keeps simp_thms)
qed

section \<open>The queued command\<close>

lemma queuedStopSyncPlay_eq:
  "queuedStopSyncPlay =
     joinedSyncPlay
       \<lparr>manager := (manager joinedSyncPlay)\<lparr>queuedCommand := Some exampleStop\<rparr>,
        console := [(Debug, ''SyncPlay processCommand: SyncPlay not ready, queued command'')]\<rparr>"
  by (simp add: queuedStopSyncPlay_def joinedSyncPlay_eq processCommand_def parseCommand_def
      exampleStop_def logLine_def)

text \<open>
  C8. The closure that \<open>enableSyncPlay\<close> registers for the first time sync update sets
  \<open>syncPlayReady\<close>, processes the queued command and then clears \<open>queuedCommand\<close>,
  with nothing to catch an exception in between. A \<open>Stop\<close> for remote time 500 that
  arrived after joining is queued; at the first time sync update, at local time 1000 with
  a player active, the closure sets \<open>syncPlayReady\<close> and processes the command once (it
  becomes \<open>lastPlaybackCommand\<close> and the playback core's \<open>lastCommand\<close>). Its time has
  passed, so \<open>scheduleStop\<close> stops at once through \<open>localStop\<close>, which calls the
  \<open>stop\<close> method that \<open>playbackManager\<close> does not have. The \<open>TypeError\<close> ends the
  closure before \<open>queuedCommand\<close> is cleared: the state reached has \<open>syncPlayReady\<close>
  set and the command still queued.
\<close>

theorem queuedCommand_kept_when_flush_throws:
  "reachable (step exampleEnv InTimeSyncUpdate queuedStopSyncPlay)
   \<and> \<not> syncPlayReady (manager queuedStopSyncPlay)
   \<and> queuedCommand (manager queuedStopSyncPlay) = Some exampleStop
   \<and> syncPlayReady (manager (step exampleEnv InTimeSyncUpdate queuedStopSyncPlay))
   \<and> queuedCommand (manager (step exampleEnv InTimeSyncUpdate queuedStopSyncPlay))
       = Some exampleStop
   \<and> lastPlaybackCommand (manager (step exampleEnv InTimeSyncUpdate queuedStopSyncPlay))
       = Some exampleStop
   \<and> lastCommand (playbackCore (step exampleEnv InTimeSyncUpdate queuedStopSyncPlay))
       = Some exampleStop
   \<and> uncaught (step exampleEnv InTimeSyncUpdate queuedStopSyncPlay) = [TypeError]"
proof -
  have "reachable (step exampleEnv InTimeSyncUpdate queuedStopSyncPlay)"
    unfolding queuedStopSyncPlay_def joinedSyncPlay_def by (intro reachable.intros)
  moreover have "\<not> syncPlayReady (manager queuedStopSyncPlay)
   \<and> queuedCommand (manager queuedStopSyncPlay) = Some exampleStop
   \<and> syncPlayReady (manager (step exampleEnv InTimeSyncUpdate queuedStopSyncPlay))
   \<and> queuedCommand (manager (step exampleEnv InTimeSyncUpdate queuedStopSyncPlay))
       = Some exampleStop
   \<and> lastPlaybackCommand (manager (step exampleEnv InTimeSyncUpdate queuedStopSyncPlay))
       = Some exampleStop
   \<and> lastCommand (playbackCore (step exampleEnv InTimeSyncUpdate queuedStopSyncPlay))
       = Some exampleStop
   \<and> uncaught (step exampleEnv InTimeSyncUpdate queuedStopSyncPlay) = [TypeError]"
    by (simp add: queuedStopSyncPlay_eq joinedSyncPlay_eq resolveWaiters_def resolveWaiter_def
        runCallback_def processCommand_def parseCommand_def applyCommand_def isDuplicate_def
        scheduleStop_def newPlaybackCore_def loadPreferences_def number_defs exampleEnv_def
        exampleStop_def basic_defs Let_def)
  ultimately show ?thesis by simp
qed

end
